theory Spec2Isabelle
  imports Complex_Main "HOL-Library.AList" "HOL-Library.Char_ord" "HOL-Library.List_Lexorder"
begin

section \<open>The planning store of jtm-order\<close>

text \<open>
  A shallow embedding of \<^verbatim>\<open>src/app/src/stores/planningStore.ts\<close> (the Pinia store
  \<^verbatim>\<open>usePlanningStore\<close>) and of the interfaces of
  \<^verbatim>\<open>src/app/src/types/database.types.ts\<close> that it uses.

  Conventions of the embedding:
  \<^item> a TypeScript interface is a record; as the interfaces share field names, every field
    carries a short prefix naming its interface (\<open>p_\<close> MasterProduct, \<open>sp_\<close>
    SalesPlanDetail, \<open>md_\<close> MonthData, \<open>row_\<close> PivotedProductRow, \<open>f_\<close>
    PlanningFilter, \<open>u_\<close> UpsertRecord, \<open>ap_\<close> and \<open>ur_\<close> for the properties of
    an inherited object and the record built from its copy);
  \<^item> \<^verbatim>\<open>string | null\<close> is \<open>string option\<close>;
  \<^item> a JavaScript \<^verbatim>\<open>number\<close> that holds a quantity or a ratio of a plan or a cell, or
    the value of an edit, is a \<open>real\<close> (the idealisation of a double: no rounding, no NaN,
    no infinities); year and month numbers, which the store only counts with and prints,
    are \<open>int\<close>;
  \<^item> the object \<^verbatim>\<open>months: Record<string, MonthData>\<close> and the
    \<^verbatim>\<open>Map\<close>s of the store are association lists in insertion order; storing under a
    key that is present replaces the value in place, storing under a new key appends
    (\<open>AList.update\<close>), reading an own key is \<open>map_of\<close>. \<^verbatim>\<open>months\<close> is a plain
    object, so a read under a name that is not an own key goes on to \<^verbatim>\<open>Object.prototype\<close>;
    the members found there, and what \<^verbatim>\<open>updateCell\<close> does to them, are part of the
    model;
  \<^item> the refs of the store are the fields of one state record, every action takes the state
    and returns the new one; an \<^verbatim>\<open>await\<close> on Supabase is a call of a function that
    stands for the database and returns either what was thrown or the data.
\<close>

subsection \<open>Data model (database.types.ts)\<close>

datatype ProductCategory = AMB | MCB

type_synonym number = real

record MasterProduct =
  p_id :: string
  p_kode_barang :: string
  p_nama_produk :: "string option"
  p_tipe :: string
  p_kategori :: ProductCategory
  p_std_pallet :: number
  p_isi_dus :: number
  p_created_at :: string
  p_updated_at :: string

record MasterRegion =
  r_id :: string
  r_kode :: string
  r_nama :: string
  r_is_active :: bool
  r_created_at :: string

text \<open>
  Of the view row \<^verbatim>\<open>SalesPlanDetail\<close> the record keeps the key columns and every column
  the store reads; the remaining display columns (\<^verbatim>\<open>tahun\<close>, \<^verbatim>\<open>bulan\<close>,
  \<^verbatim>\<open>nama_produk\<close>, \<^verbatim>\<open>tipe\<close>, \<^verbatim>\<open>std_pallet\<close>, \<^verbatim>\<open>isi_dus\<close>,
  \<^verbatim>\<open>region_nama\<close>, \<^verbatim>\<open>achievement_pct\<close>, the two timestamps) are never read by it.
\<close>

record SalesPlanDetail =
  sp_id :: string
  sp_bulan_tahun :: string
  sp_bulan_label :: string
  sp_product_id :: string
  sp_kode_barang :: string
  sp_kategori :: ProductCategory
  sp_region_id :: string
  sp_region_kode :: string
  sp_target_jual :: number
  sp_estimasi_jual :: number
  sp_realisasi_sales :: number
  sp_stok_awal :: number
  sp_stok_akhir :: number
  sp_order_qty :: number
  sp_ito :: number

record MonthData =
  md_id :: "string option"
  md_bulan_tahun :: string
  md_bulan_label :: string
  md_target_jual :: number
  md_estimasi_jual :: number
  md_realisasi_sales :: number
  md_stok_awal :: number
  md_stok_akhir :: number
  md_order_qty :: number
  md_ito :: number
  md_isModified :: bool

record PivotedProductRow =
  row_product_id :: string
  row_kode_barang :: string
  row_nama_produk :: "string option"
  row_tipe :: string
  row_kategori :: ProductCategory
  row_std_pallet :: number
  row_isi_dus :: number
  row_region_id :: string
  row_region_kode :: string
  row_months :: "(string \<times> MonthData) list"

record PlanningFilter =
  f_region_id :: "string option"
  f_kategori :: "ProductCategory option"
  f_year :: int
  f_startMonth :: int
  f_endMonth :: int

text \<open>\<^verbatim>\<open>keyof MonthData\<close>, the type of the \<^verbatim>\<open>field\<close> argument of \<^verbatim>\<open>updateCell\<close>.\<close>

datatype MonthDataKey =
  K_id | K_bulan_tahun | K_bulan_label | K_target_jual | K_estimasi_jual
  | K_realisasi_sales | K_stok_awal | K_stok_akhir | K_order_qty | K_ito | K_isModified

text \<open>The interface \<^verbatim>\<open>UpsertRecord\<close> local to \<^verbatim>\<open>saveChanges\<close>; \<^verbatim>\<open>id?\<close> absent is \<open>None\<close>.\<close>

record UpsertRecord =
  u_id :: "string option"
  u_product_id :: string
  u_region_id :: string
  u_bulan_tahun :: string
  u_target_jual :: number
  u_estimasi_jual :: number
  u_realisasi_sales :: number
  u_stok_awal :: number
  u_stok_akhir :: number
  u_order_qty :: number
  u_ito :: number

text \<open>One element of the computed \<^verbatim>\<open>monthColumns\<close>.\<close>

record MonthColumn =
  mc_key :: string
  mc_label :: string
  mc_date :: string

subsection \<open>Members that every plain object inherits\<close>

text \<open>
  \<^verbatim>\<open>row.months[monthKey]\<close> reads a plain object (\<^verbatim>\<open>months: {}\<close> in
  \<^verbatim>\<open>transformToPivotedData\<close>). Under a name that is not one of its own keys the read
  goes on to \<^verbatim>\<open>Object.prototype\<close>, which holds a function under each of the names
  below and answers \<^verbatim>\<open>__proto__\<close> with itself. These twelve objects do not belong to
  the store, but \<^verbatim>\<open>updateCell\<close> can reach them, assign to their properties and copy
  them into \<^verbatim>\<open>modifiedCells\<close>.
\<close>

definition objectPrototypeMembers :: "string list" where
  "objectPrototypeMembers =
     [''constructor'', ''__defineGetter__'', ''__defineSetter__'', ''hasOwnProperty'',
      ''__lookupGetter__'', ''__lookupSetter__'', ''isPrototypeOf'', ''propertyIsEnumerable'',
      ''toString'', ''valueOf'', ''__proto__'', ''toLocaleString'']"

text \<open>
  A number held by a property of such an object. There the arithmetic of \<^verbatim>\<open>updateCell\<close>
  meets \<^verbatim>\<open>undefined\<close>, and its result is \<^verbatim>\<open>NaN\<close>.
\<close>

datatype js_number = Num number | NaN

text \<open>
  The enumerable own properties of such an object: none at first, later the ones that
  \<^verbatim>\<open>updateCell\<close> has assigned. \<open>None\<close> says that the object has no own property
  of the name, so that reading it gives what the prototype has, or \<^verbatim>\<open>undefined\<close>.
\<close>

record AssignedProps =
  ap_target_jual :: "js_number option"
  ap_estimasi_jual :: "js_number option"
  ap_realisasi_sales :: "js_number option"
  ap_stok_awal :: "js_number option"
  ap_stok_akhir :: "js_number option"
  ap_order_qty :: "js_number option"
  ap_ito :: "js_number option"
  ap_isModified :: "bool option"

text \<open>
  A value of the \<^verbatim>\<open>Map\<close> \<^verbatim>\<open>modifiedCells\<close>: the copy \<^verbatim>\<open>{ ...monthData }\<close> that
  \<^verbatim>\<open>updateCell\<close> stores is the copy of a cell or the copy of one of the inherited
  objects.
\<close>

datatype TrackedCell = Snapshot MonthData | InheritedCopy AssignedProps

text \<open>
  What \<^verbatim>\<open>saveChanges\<close> pushes for the copy of an inherited object: the properties are
  read from the copy, \<^verbatim>\<open>bulan_tahun\<close> is always \<^verbatim>\<open>undefined\<close> and \<^verbatim>\<open>id\<close> is never
  set, so the record has neither. The array \<^verbatim>\<open>upsertData\<close> holds records of the declared
  interface and records of this kind.
\<close>

record UntypedRecord =
  ur_product_id :: string
  ur_region_id :: string
  ur_target_jual :: "js_number option"
  ur_estimasi_jual :: "js_number option"
  ur_realisasi_sales :: "js_number option"
  ur_stok_awal :: "js_number option"
  ur_stok_akhir :: "js_number option"
  ur_order_qty :: "js_number option"
  ur_ito :: "js_number option"

datatype UpsertItem = Typed UpsertRecord | Untyped UntypedRecord

subsection \<open>State of the store\<close>

text \<open>
  The refs of the store and, as \<open>inherited\<close>, the properties that the inherited objects
  have, by the name of the member of \<^verbatim>\<open>Object.prototype\<close>; \<^verbatim>\<open>__proto__\<close> names
  \<^verbatim>\<open>Object.prototype\<close> itself.
\<close>

record PlanningState =
  products :: "MasterProduct list"
  regions :: "MasterRegion list"
  salesPlanDetails :: "SalesPlanDetail list"
  pivotedData :: "PivotedProductRow list"
  isLoading :: bool
  isSaving :: bool
  error :: "string option"
  currentFilter :: PlanningFilter
  modifiedCells :: "(string \<times> TrackedCell) list"
  inherited :: "(string \<times> AssignedProps) list"

text \<open>
  What a \<^verbatim>\<open>catch (err: unknown)\<close> of the store can receive: an \<^verbatim>\<open>Error\<close> with its
  message, or any other thrown value. \<open>err_message\<close> is
  \<^verbatim>\<open>err instanceof Error ? err.message : fallback\<close>.
\<close>

datatype js_thrown = Error string | Thrown_other

fun err_message :: "js_thrown \<Rightarrow> string \<Rightarrow> string" where
  "err_message (Error m) fallback = m"
| "err_message Thrown_other fallback = fallback"

subsection \<open>Printing numbers\<close>

text \<open>
  \<^verbatim>\<open>Number.prototype.toString\<close> on an integer (below \<open>10\<^sup>2\<^sup>1\<close> in absolute value, where
  JavaScript prints all digits), and \<^verbatim>\<open>String.prototype.padStart\<close> with a one-character
  pad string.
\<close>

definition digit_char :: "nat \<Rightarrow> char" where
  "digit_char d = ''0123456789'' ! d"

fun nat_toString :: "nat \<Rightarrow> string" where
  "nat_toString n =
     (if n < 10 then [digit_char n] else nat_toString (n div 10) @ [digit_char (n mod 10)])"

declare nat_toString.simps [simp del]

definition toString :: "int \<Rightarrow> string" where
  "toString i = (if i < 0 then CHR ''-'' # nat_toString (nat (- i)) else nat_toString (nat i))"

definition padStart :: "nat \<Rightarrow> char \<Rightarrow> string \<Rightarrow> string" where
  "padStart n c s = replicate (n - length s) c @ s"

subsection \<open>Getters\<close>

definition hasUnsavedChanges :: "PlanningState \<Rightarrow> bool" where
  "hasUnsavedChanges s = (length (modifiedCells s) > 0)"

definition monthNames :: "string list" where
  "monthNames = [''Jan'', ''Feb'', ''Mar'', ''Apr'', ''Mei'', ''Jun'',
                 ''Jul'', ''Agu'', ''Sep'', ''Okt'', ''Nov'', ''Des'']"

text \<open>
  The body of the loop of \<^verbatim>\<open>monthColumns\<close> for one \<open>m\<close>. Reading \<^verbatim>\<open>monthNames[m - 1]\<close>
  outside the array gives \<^verbatim>\<open>undefined\<close>, which the template literal prints.
\<close>

definition monthColumn :: "int \<Rightarrow> int \<Rightarrow> MonthColumn" where
  "monthColumn year m =
     (let monthStr = padStart 2 (CHR ''0'') (toString m);
          date = toString year @ ''-'' @ monthStr @ ''-01''
      in \<lparr> mc_key = toString year @ ''-'' @ monthStr,
           mc_label = (if 1 \<le> m \<and> m \<le> 12 then monthNames ! nat (m - 1) else ''undefined'')
                      @ '' '' @ toString year,
           mc_date = date \<rparr>)"

definition monthColumns :: "PlanningFilter \<Rightarrow> MonthColumn list" where
  "monthColumns f = map (monthColumn (f_year f)) [f_startMonth f .. f_endMonth f]"

subsection \<open>The pivot transform\<close>

definition createEmptyMonthData :: "string \<Rightarrow> string \<Rightarrow> MonthData" where
  "createEmptyMonthData date label =
     \<lparr> md_id = None, md_bulan_tahun = date, md_bulan_label = label,
       md_target_jual = 0, md_estimasi_jual = 0, md_realisasi_sales = 0,
       md_stok_awal = 0, md_stok_akhir = 0, md_order_qty = 0, md_ito = 0,
       md_isModified = False \<rparr>"

text \<open>
  \<^verbatim>\<open>products.value\<close>, filtered by the category of the filter when one is set.
\<close>

definition filteredProducts :: "MasterProduct list \<Rightarrow> PlanningFilter \<Rightarrow> MasterProduct list" where
  "filteredProducts ps f =
     (case f_kategori f of
        None \<Rightarrow> ps
      | Some k \<Rightarrow> filter (\<lambda>p. p_kategori p = k) ps)"

text \<open>The inner loop of the first pass: one empty cell per month column, stored by key.\<close>

definition initMonths :: "MonthColumn list \<Rightarrow> (string \<times> MonthData) list" where
  "initMonths cols =
     foldl (\<lambda>ms month. AList.update (mc_key month)
                          (createEmptyMonthData (mc_date month) (mc_label month)) ms) [] cols"

definition initRow :: "PlanningFilter \<Rightarrow> MasterProduct \<Rightarrow> PivotedProductRow" where
  "initRow f product =
     \<lparr> row_product_id = p_id product,
       row_kode_barang = p_kode_barang product,
       row_nama_produk = p_nama_produk product,
       row_tipe = p_tipe product,
       row_kategori = p_kategori product,
       row_std_pallet = p_std_pallet product,
       row_isi_dus = p_isi_dus product,
       row_region_id = (case f_region_id f of None \<Rightarrow> '''' | Some r \<Rightarrow> r),
       row_region_kode = '''',
       row_months = initMonths (monthColumns f) \<rparr>"

text \<open>The first pass: \<^verbatim>\<open>productMap.set(product.id, row)\<close> for every filtered product.\<close>

definition initProductMap ::
  "PlanningFilter \<Rightarrow> MasterProduct list \<Rightarrow> (string \<times> PivotedProductRow) list" where
  "initProductMap f ps = foldl (\<lambda>pm product. AList.update (p_id product) (initRow f product) pm) [] ps"

definition monthDataOfPlan :: "SalesPlanDetail \<Rightarrow> MonthData" where
  "monthDataOfPlan plan =
     \<lparr> md_id = Some (sp_id plan),
       md_bulan_tahun = sp_bulan_tahun plan,
       md_bulan_label = sp_bulan_label plan,
       md_target_jual = sp_target_jual plan,
       md_estimasi_jual = sp_estimasi_jual plan,
       md_realisasi_sales = sp_realisasi_sales plan,
       md_stok_awal = sp_stok_awal plan,
       md_stok_akhir = sp_stok_akhir plan,
       md_order_qty = sp_order_qty plan,
       md_ito = sp_ito plan,
       md_isModified = False \<rparr>"

text \<open>
  The body of the second pass for one plan. The row object found in the map is mutated in
  place, so the map holds the changed row under the same key at the same position.
  \<^verbatim>\<open>substring(0, 7)\<close> is \<open>take 7\<close>. The month key comes from \<^verbatim>\<open>bulan_tahun\<close>, a
  \<^verbatim>\<open>DATE\<close> column that arrives as \<^verbatim>\<open>YYYY-MM-DD\<close>, so it is no name of an inherited
  member and \<^verbatim>\<open>row.months[monthKey]\<close> is truthy exactly for an own key.
\<close>

definition fillPlan ::
  "(string \<times> PivotedProductRow) list \<Rightarrow> SalesPlanDetail \<Rightarrow> (string \<times> PivotedProductRow) list" where
  "fillPlan pm plan =
     (case map_of pm (sp_product_id plan) of
        None \<Rightarrow> pm
      | Some row \<Rightarrow>
          (let row1 = row\<lparr>row_region_kode := sp_region_kode plan\<rparr>;
               monthKey = take 7 (sp_bulan_tahun plan);
               row2 = (case map_of (row_months row1) monthKey of
                         None \<Rightarrow> row1
                       | Some _ \<Rightarrow> row1\<lparr>row_months :=
                            AList.update monthKey (monthDataOfPlan plan) (row_months row1)\<rparr>)
           in AList.update (sp_product_id plan) row2 pm))"

definition pivotRows ::
  "MasterProduct list \<Rightarrow> PlanningFilter \<Rightarrow> SalesPlanDetail list \<Rightarrow> PivotedProductRow list" where
  "pivotRows ps f plans =
     map snd (foldl fillPlan (initProductMap f (filteredProducts ps f)) plans)"

definition transformToPivotedData :: "PlanningState \<Rightarrow> PlanningState" where
  "transformToPivotedData s =
     s\<lparr>pivotedData := pivotRows (products s) (currentFilter s) (salesPlanDetails s)\<rparr>"

subsection \<open>Editing a cell\<close>

text \<open>The \<^verbatim>\<open>switch (field)\<close> of \<^verbatim>\<open>updateCell\<close>: six cases, no default.\<close>

fun setField :: "MonthDataKey \<Rightarrow> number \<Rightarrow> MonthData \<Rightarrow> MonthData" where
  "setField K_stok_awal v monthData = monthData\<lparr>md_stok_awal := v\<rparr>"
| "setField K_order_qty v monthData = monthData\<lparr>md_order_qty := v\<rparr>"
| "setField K_estimasi_jual v monthData = monthData\<lparr>md_estimasi_jual := v\<rparr>"
| "setField K_target_jual v monthData = monthData\<lparr>md_target_jual := v\<rparr>"
| "setField K_realisasi_sales v monthData = monthData\<lparr>md_realisasi_sales := v\<rparr>"
| "setField K_ito v monthData = monthData\<lparr>md_ito := v\<rparr>"
| "setField _ v monthData = monthData"

text \<open>
  What \<^verbatim>\<open>updateCell\<close> does to the cell object once it is found: the switch, the flag,
  and the recomputation of \<^verbatim>\<open>stok_akhir\<close> for the three fields of the
  \<^verbatim>\<open>includes\<close> test.
\<close>

definition editMonthData :: "MonthDataKey \<Rightarrow> number \<Rightarrow> MonthData \<Rightarrow> MonthData" where
  "editMonthData field v monthData =
     (let m1 = setField field v monthData;
          m2 = m1\<lparr>md_isModified := True\<rparr>
      in if field \<in> set [K_stok_awal, K_order_qty, K_estimasi_jual]
         then m2\<lparr>md_stok_akhir := md_stok_awal m2 + md_order_qty m2 - md_estimasi_jual m2\<rparr>
         else m2)"

text \<open>
  The cell object belongs to the first row that \<^verbatim>\<open>find\<close> returns; mutating it changes
  that row of \<^verbatim>\<open>pivotedData\<close> and no other.
\<close>

fun updateFirst :: "('a \<Rightarrow> bool) \<Rightarrow> ('a \<Rightarrow> 'a) \<Rightarrow> 'a list \<Rightarrow> 'a list" where
  "updateFirst P g [] = []"
| "updateFirst P g (x # xs) = (if P x then g x # xs else x # updateFirst P g xs)"

text \<open>The key of a cell in \<^verbatim>\<open>modifiedCells\<close>: the template \<^verbatim>\<open>`${productId}_${monthKey}`\<close>.\<close>

definition cellKey :: "string \<Rightarrow> string \<Rightarrow> string" where
  "cellKey productId monthKey = productId @ ''_'' @ monthKey"

text \<open>
  The same statements when \<^verbatim>\<open>row.months[monthKey]\<close> is one of the inherited objects.
  \<open>ownProps\<close> are the own properties of the object under a name; \<open>readProp\<close> reads a
  property of an object with the own properties \<open>ps\<close>: the own one, else the one of
  \<^verbatim>\<open>Object.prototype\<close> (a function inherits from it through \<^verbatim>\<open>Function.prototype\<close>,
  which has no property of these names), else \<^verbatim>\<open>undefined\<close>. In \<^verbatim>\<open>a + b - c\<close> an
  operand that is \<^verbatim>\<open>undefined\<close> or \<^verbatim>\<open>NaN\<close> makes the result \<^verbatim>\<open>NaN\<close>.
\<close>

definition noProps :: AssignedProps where
  "noProps = \<lparr> ap_target_jual = None, ap_estimasi_jual = None, ap_realisasi_sales = None,
       ap_stok_awal = None, ap_stok_akhir = None, ap_order_qty = None, ap_ito = None,
       ap_isModified = None \<rparr>"

definition ownProps :: "(string \<times> AssignedProps) list \<Rightarrow> string \<Rightarrow> AssignedProps" where
  "ownProps objs name = (case map_of objs name of None \<Rightarrow> noProps | Some ps \<Rightarrow> ps)"

definition readProp ::
  "(string \<times> AssignedProps) list \<Rightarrow> AssignedProps \<Rightarrow> (AssignedProps \<Rightarrow> 'a option) \<Rightarrow> 'a option" where
  "readProp objs ps sel =
     (case sel ps of Some x \<Rightarrow> Some x | None \<Rightarrow> sel (ownProps objs ''__proto__''))"

fun js_add :: "js_number option \<Rightarrow> js_number option \<Rightarrow> js_number" where
  "js_add (Some (Num a)) (Some (Num b)) = Num (a + b)"
| "js_add _ _ = NaN"

fun js_sub :: "js_number \<Rightarrow> js_number option \<Rightarrow> js_number" where
  "js_sub (Num a) (Some (Num b)) = Num (a - b)"
| "js_sub _ _ = NaN"

fun assignField :: "MonthDataKey \<Rightarrow> number \<Rightarrow> AssignedProps \<Rightarrow> AssignedProps" where
  "assignField K_stok_awal v ps = ps\<lparr>ap_stok_awal := Some (Num v)\<rparr>"
| "assignField K_order_qty v ps = ps\<lparr>ap_order_qty := Some (Num v)\<rparr>"
| "assignField K_estimasi_jual v ps = ps\<lparr>ap_estimasi_jual := Some (Num v)\<rparr>"
| "assignField K_target_jual v ps = ps\<lparr>ap_target_jual := Some (Num v)\<rparr>"
| "assignField K_realisasi_sales v ps = ps\<lparr>ap_realisasi_sales := Some (Num v)\<rparr>"
| "assignField K_ito v ps = ps\<lparr>ap_ito := Some (Num v)\<rparr>"
| "assignField _ v ps = ps"

definition editInherited ::
  "string \<Rightarrow> MonthDataKey \<Rightarrow> number \<Rightarrow> (string \<times> AssignedProps) list
   \<Rightarrow> (string \<times> AssignedProps) list" where
  "editInherited name field v objs =
     (let objs1 = AList.update name
                    ((assignField field v (ownProps objs name))\<lparr>ap_isModified := Some True\<rparr>) objs
      in if field \<in> set [K_stok_awal, K_order_qty, K_estimasi_jual]
         then (let ps = ownProps objs1 name
               in AList.update name
                    (ps\<lparr>ap_stok_akhir :=
                          Some (js_sub (js_add (readProp objs1 ps ap_stok_awal)
                                               (readProp objs1 ps ap_order_qty))
                                       (readProp objs1 ps ap_estimasi_jual))\<rparr>) objs1)
         else objs1)"

text \<open>
  \<^verbatim>\<open>updateCell\<close>. The guard \<^verbatim>\<open>!row || !row.months[monthKey]\<close> returns when there is no
  row, or when what the read yields is falsy. An own cell and an inherited object are
  truthy: the statements run on the cell, or on the inherited object, and a copy is stored
  in \<^verbatim>\<open>modifiedCells\<close>. Under any other name the read yields \<^verbatim>\<open>undefined\<close>, or
  the number or flag that an earlier call has assigned to \<^verbatim>\<open>Object.prototype\<close> under
  that name; the call then returns at the guard or, when that value is truthy, throws a
  \<^verbatim>\<open>TypeError\<close> at its first assignment (a property of a primitive, in strict mode), and
  the store is as it was in both cases.
\<close>

definition updateCell ::
  "string \<Rightarrow> string \<Rightarrow> MonthDataKey \<Rightarrow> number \<Rightarrow> PlanningState \<Rightarrow> PlanningState" where
  "updateCell productId monthKey field v s =
     (case find (\<lambda>r. row_product_id r = productId) (pivotedData s) of
        None \<Rightarrow> s
      | Some row \<Rightarrow>
          (case map_of (row_months row) monthKey of
             Some monthData \<Rightarrow>
               (let monthData' = editMonthData field v monthData
                in s\<lparr>pivotedData :=
                       updateFirst (\<lambda>r. row_product_id r = productId)
                         (\<lambda>r. r\<lparr>row_months := AList.update monthKey monthData' (row_months r)\<rparr>)
                         (pivotedData s),
                     modifiedCells :=
                       AList.update (cellKey productId monthKey) (Snapshot monthData')
                         (modifiedCells s)\<rparr>)
           | None \<Rightarrow>
               if monthKey \<in> set objectPrototypeMembers
               then (let objs = editInherited monthKey field v (inherited s)
                     in s\<lparr>inherited := objs,
                          modifiedCells :=
                            AList.update (cellKey productId monthKey)
                              (InheritedCopy (ownProps objs monthKey)) (modifiedCells s)\<rparr>)
               else s))"

text \<open>
  Whether the call ends with that \<^verbatim>\<open>TypeError\<close>: the month key is the name of a property
  that \<^verbatim>\<open>Object.prototype\<close> has got, with a truthy value (a number other than 0 and
  \<^verbatim>\<open>NaN\<close>, or \<^verbatim>\<open>true\<close>).
\<close>

fun truthyNumber :: "js_number option \<Rightarrow> bool" where
  "truthyNumber (Some (Num v)) = (v \<noteq> 0)"
| "truthyNumber _ = False"

definition assignedTruthy :: "AssignedProps \<Rightarrow> string \<Rightarrow> bool" where
  "assignedTruthy ps name =
     (name = ''target_jual'' \<and> truthyNumber (ap_target_jual ps)
      \<or> name = ''estimasi_jual'' \<and> truthyNumber (ap_estimasi_jual ps)
      \<or> name = ''realisasi_sales'' \<and> truthyNumber (ap_realisasi_sales ps)
      \<or> name = ''stok_awal'' \<and> truthyNumber (ap_stok_awal ps)
      \<or> name = ''stok_akhir'' \<and> truthyNumber (ap_stok_akhir ps)
      \<or> name = ''order_qty'' \<and> truthyNumber (ap_order_qty ps)
      \<or> name = ''ito'' \<and> truthyNumber (ap_ito ps)
      \<or> name = ''isModified'' \<and> ap_isModified ps = Some True)"

definition updateCellTypeError :: "string \<Rightarrow> string \<Rightarrow> PlanningState \<Rightarrow> bool" where
  "updateCellTypeError productId monthKey s =
     (case find (\<lambda>r. row_product_id r = productId) (pivotedData s) of
        None \<Rightarrow> False
      | Some row \<Rightarrow>
          (case map_of (row_months row) monthKey of
             Some monthData \<Rightarrow> False
           | None \<Rightarrow>
               monthKey \<notin> set objectPrototypeMembers
               \<and> assignedTruthy (ownProps (inherited s) ''__proto__'') monthKey))"

text \<open>
  Reading a cell of the pivot: the first row with the product identifier, then the own
  key of its \<^verbatim>\<open>months\<close>.
\<close>

definition cellAt :: "PivotedProductRow list \<Rightarrow> string \<Rightarrow> string \<Rightarrow> MonthData option" where
  "cellAt rows productId monthKey =
     (case find (\<lambda>r. row_product_id r = productId) rows of
        None \<Rightarrow> None
      | Some row \<Rightarrow> map_of (row_months row) monthKey)"

text \<open>A sequence of \<^verbatim>\<open>updateCell\<close> calls, each given by its four arguments.\<close>

type_synonym edit = "string \<times> string \<times> MonthDataKey \<times> number"

fun applyEdit :: "PlanningState \<Rightarrow> edit \<Rightarrow> PlanningState" where
  "applyEdit s (productId, monthKey, field, v) = updateCell productId monthKey field v s"

definition applyEdits :: "edit list \<Rightarrow> PlanningState \<Rightarrow> PlanningState" where
  "applyEdits es s = foldl applyEdit s es"

subsection \<open>Fetching, saving, discarding, filtering\<close>

text \<open>JavaScript truthiness of a \<^verbatim>\<open>string | null\<close>: neither \<^verbatim>\<open>null\<close> nor empty.\<close>

fun truthy :: "string option \<Rightarrow> bool" where
  "truthy None = False"
| "truthy (Some str) = (str \<noteq> [])"

text \<open>
  \<^verbatim>\<open>fetchMasterData\<close>. \<open>productResult\<close> stands for what the query
  \<^verbatim>\<open>from('master_products').select('*').order('kategori').order('kode_barang')\<close> yields,
  \<open>regionResult\<close> for the query on \<^verbatim>\<open>master_regions\<close>; a thrown product error skips
  the region query.
\<close>

definition fetchMasterData ::
  "js_thrown + MasterProduct list \<Rightarrow> js_thrown + MasterRegion list
   \<Rightarrow> PlanningState \<Rightarrow> PlanningState" where
  "fetchMasterData productResult regionResult s =
     (let s1 = s\<lparr>isLoading := True, error := None\<rparr>
      in case productResult of
           Inl err \<Rightarrow>
             s1\<lparr>error := Some (err_message err ''Failed to fetch master data''),
                isLoading := False\<rparr>
         | Inr productData \<Rightarrow>
             (let s2 = s1\<lparr>products := productData\<rparr>
              in case regionResult of
                   Inl err \<Rightarrow>
                     s2\<lparr>error := Some (err_message err ''Failed to fetch master data''),
                        isLoading := False\<rparr>
                 | Inr regionData \<Rightarrow> s2\<lparr>regions := regionData, isLoading := False\<rparr>))"

text \<open>
  The order that the product query asks the database for: by \<^verbatim>\<open>kategori\<close>, an enum
  declared as \<^verbatim>\<open>('AMB', 'MCB')\<close> and ordered so, then by \<^verbatim>\<open>kode_barang\<close> in the
  collation order \<open>le\<close> of the database, which is left open.
\<close>

definition categoryThenCode ::
  "(string \<Rightarrow> string \<Rightarrow> bool) \<Rightarrow> ProductCategory \<times> string \<Rightarrow> ProductCategory \<times> string \<Rightarrow> bool" where
  "categoryThenCode le a b =
     ((fst a = AMB \<and> fst b = MCB) \<or> (fst a = fst b \<and> le (snd a) (snd b)))"

text \<open>The same order on products and on rows of the pivot.\<close>

definition productOrder :: "(string \<Rightarrow> string \<Rightarrow> bool) \<Rightarrow> MasterProduct \<Rightarrow> MasterProduct \<Rightarrow> bool" where
  "productOrder le =
     (\<lambda>p q. categoryThenCode le (p_kategori p, p_kode_barang p) (p_kategori q, p_kode_barang q))"

definition rowOrder ::
  "(string \<Rightarrow> string \<Rightarrow> bool) \<Rightarrow> PivotedProductRow \<Rightarrow> PivotedProductRow \<Rightarrow> bool" where
  "rowOrder le =
     (\<lambda>a b. categoryThenCode le (row_kategori a, row_kode_barang a)
                                (row_kategori b, row_kode_barang b))"

text \<open>
  \<open>select\<close> stands for the query on \<^verbatim>\<open>v_sales_plans_detail\<close>: it receives the region,
  the two dates and the optional category of the query and returns what the \<^verbatim>\<open>await\<close>
  yields (a \<^verbatim>\<open>null\<close> \<^verbatim>\<open>data\<close> is the empty list).
\<close>

type_synonym plan_query =
  "string \<Rightarrow> string \<Rightarrow> string \<Rightarrow> ProductCategory option \<Rightarrow> js_thrown + SalesPlanDetail list"

text \<open>
  The query that \<^verbatim>\<open>fetchSalesPlans\<close> sends for a region: the first days of the first
  and of the last month of the filter, and its category.
\<close>

definition planQuery ::
  "plan_query \<Rightarrow> PlanningFilter \<Rightarrow> string \<Rightarrow> js_thrown + SalesPlanDetail list" where
  "planQuery select f region =
     (let startDate = toString (f_year f) @ ''-''
                      @ padStart 2 (CHR ''0'') (toString (f_startMonth f)) @ ''-01'';
          endDate = toString (f_year f) @ ''-''
                    @ padStart 2 (CHR ''0'') (toString (f_endMonth f)) @ ''-01''
      in select region startDate endDate (f_kategori f))"

definition fetchSalesPlans :: "plan_query \<Rightarrow> PlanningState \<Rightarrow> PlanningState" where
  "fetchSalesPlans select s =
     (case f_region_id (currentFilter s) of
        None \<Rightarrow> s\<lparr>salesPlanDetails := [], pivotedData := []\<rparr>
      | Some region \<Rightarrow>
          if region = [] then s\<lparr>salesPlanDetails := [], pivotedData := []\<rparr>
          else
            (let s1 = s\<lparr>isLoading := True, error := None\<rparr>
             in case planQuery select (currentFilter s1) region of
                  Inl err \<Rightarrow>
                    s1\<lparr>error := Some (err_message err ''Failed to fetch sales plans''),
                       isLoading := False\<rparr>
                | Inr data \<Rightarrow>
                    (transformToPivotedData (s1\<lparr>salesPlanDetails := data\<rparr>))
                      \<lparr>isLoading := False\<rparr>))"

text \<open>
  The body of the loop of \<^verbatim>\<open>saveChanges\<close> for one entry of \<^verbatim>\<open>modifiedCells\<close>;
  \<open>None\<close> is the \<^verbatim>\<open>continue\<close>. \<^verbatim>\<open>key.split('_')[0]\<close> is the part of the key before
  its first underscore. The copy of a cell has every property of \<^verbatim>\<open>MonthData\<close> as its
  own; the copy of an inherited object is a plain object that has the properties assigned
  so far, and the others are read from \<^verbatim>\<open>Object.prototype\<close> as it is when
  \<^verbatim>\<open>saveChanges\<close> runs.
\<close>

definition upsertRecordOf ::
  "PlanningFilter \<Rightarrow> (string \<times> AssignedProps) list \<Rightarrow> string \<times> TrackedCell
   \<Rightarrow> UpsertItem option" where
  "upsertRecordOf f objs entry =
     (let productId = takeWhile (\<lambda>c. c \<noteq> CHR ''_'') (fst entry)
      in case f_region_id f of
           None \<Rightarrow> None
         | Some regionId \<Rightarrow>
             if regionId = [] \<or> productId = [] then None
             else
               (case snd entry of
                  Snapshot monthData \<Rightarrow>
                    Some (Typed
                      \<lparr> u_id = (if truthy (md_id monthData) then md_id monthData else None),
                        u_product_id = productId,
                        u_region_id = regionId,
                        u_bulan_tahun = md_bulan_tahun monthData,
                        u_target_jual = md_target_jual monthData,
                        u_estimasi_jual = md_estimasi_jual monthData,
                        u_realisasi_sales = md_realisasi_sales monthData,
                        u_stok_awal = md_stok_awal monthData,
                        u_stok_akhir = md_stok_akhir monthData,
                        u_order_qty = md_order_qty monthData,
                        u_ito = md_ito monthData \<rparr>)
                | InheritedCopy ps \<Rightarrow>
                    Some (Untyped
                      \<lparr> ur_product_id = productId,
                        ur_region_id = regionId,
                        ur_target_jual = readProp objs ps ap_target_jual,
                        ur_estimasi_jual = readProp objs ps ap_estimasi_jual,
                        ur_realisasi_sales = readProp objs ps ap_realisasi_sales,
                        ur_stok_awal = readProp objs ps ap_stok_awal,
                        ur_stok_akhir = readProp objs ps ap_stok_akhir,
                        ur_order_qty = readProp objs ps ap_order_qty,
                        ur_ito = readProp objs ps ap_ito \<rparr>)))"

fun buildUpsertData ::
  "PlanningFilter \<Rightarrow> (string \<times> AssignedProps) list \<Rightarrow> (string \<times> TrackedCell) list
   \<Rightarrow> UpsertItem list" where
  "buildUpsertData f objs [] = []"
| "buildUpsertData f objs (entry # entries) =
     (case upsertRecordOf f objs entry of
        None \<Rightarrow> buildUpsertData f objs entries
      | Some record \<Rightarrow> record # buildUpsertData f objs entries)"

text \<open>
  \<open>upsert\<close> stands for the batch upsert on \<^verbatim>\<open>sales_plans\<close>: it receives the records and
  returns the \<^verbatim>\<open>upsertError\<close>, if any.
\<close>

definition saveChanges ::
  "(UpsertItem list \<Rightarrow> js_thrown option) \<Rightarrow> plan_query \<Rightarrow> PlanningState \<Rightarrow> PlanningState" where
  "saveChanges upsert select s =
     (if \<not> hasUnsavedChanges s then s
      else
        (let s1 = s\<lparr>isSaving := True, error := None\<rparr>;
             upsertData = buildUpsertData (currentFilter s1) (inherited s1) (modifiedCells s1)
         in case upsert upsertData of
              Some err \<Rightarrow>
                s1\<lparr>error := Some (err_message err ''Failed to save changes''),
                   isSaving := False\<rparr>
            | None \<Rightarrow>
                (fetchSalesPlans select (s1\<lparr>modifiedCells := []\<rparr>))\<lparr>isSaving := False\<rparr>))"

definition discardChanges :: "PlanningState \<Rightarrow> PlanningState" where
  "discardChanges s = transformToPivotedData (s\<lparr>modifiedCells := []\<rparr>)"

text \<open>
  \<^verbatim>\<open>Partial<PlanningFilter>\<close>: every property may be absent (\<open>None\<close>); the spread keeps
  the current value of an absent property.
\<close>

record PartialFilter =
  pf_region_id :: "string option option"
  pf_kategori :: "ProductCategory option option"
  pf_year :: "int option"
  pf_startMonth :: "int option"
  pf_endMonth :: "int option"

definition mergeFilter :: "PlanningFilter \<Rightarrow> PartialFilter \<Rightarrow> PlanningFilter" where
  "mergeFilter cur filt =
     \<lparr> f_region_id = (case pf_region_id filt of None \<Rightarrow> f_region_id cur | Some x \<Rightarrow> x),
       f_kategori = (case pf_kategori filt of None \<Rightarrow> f_kategori cur | Some x \<Rightarrow> x),
       f_year = (case pf_year filt of None \<Rightarrow> f_year cur | Some x \<Rightarrow> x),
       f_startMonth = (case pf_startMonth filt of None \<Rightarrow> f_startMonth cur | Some x \<Rightarrow> x),
       f_endMonth = (case pf_endMonth filt of None \<Rightarrow> f_endMonth cur | Some x \<Rightarrow> x) \<rparr>"

definition setFilter :: "plan_query \<Rightarrow> PartialFilter \<Rightarrow> PlanningState \<Rightarrow> PlanningState" where
  "setFilter select filt s =
     (let s1 = s\<lparr>currentFilter := mergeFilter (currentFilter s) filt\<rparr>
      in if truthy (f_region_id (currentFilter s1)) then fetchSalesPlans select s1 else s1)"

subsection \<open>Observations used in the proofs\<close>

text \<open>
  Reading a cell from the product map of the transform, and the part of a map entry that
  the second pass never changes: its key, the product columns that identify and order the
  row, and the month keys of the row.
\<close>

definition cellOfMap ::
  "(string \<times> PivotedProductRow) list \<Rightarrow> string \<Rightarrow> string \<Rightarrow> MonthData option" where
  "cellOfMap pm productId monthKey =
     (case map_of pm productId of
        None \<Rightarrow> None
      | Some row \<Rightarrow> map_of (row_months row) monthKey)"

definition rowShape ::
  "string \<times> PivotedProductRow
   \<Rightarrow> string \<times> string \<times> ProductCategory \<times> string \<times> string list" where
  "rowShape e = (fst e, row_product_id (snd e), row_kategori (snd e), row_kode_barang (snd e),
                 map fst (row_months (snd e)))"

text \<open>The two-character month strings of the months 1 to 12.\<close>

definition monthStrs :: "string list" where
  "monthStrs = [''01'', ''02'', ''03'', ''04'', ''05'', ''06'',
                ''07'', ''08'', ''09'', ''10'', ''11'', ''12'']"





text \<open>The region and the product identifier of an element of \<^verbatim>\<open>upsertData\<close>.\<close>

fun itemRegion :: "UpsertItem \<Rightarrow> string" where
  "itemRegion (Typed r) = u_region_id r"
| "itemRegion (Untyped r) = ur_region_id r"

fun itemProduct :: "UpsertItem \<Rightarrow> string" where
  "itemProduct (Typed r) = u_product_id r"
| "itemProduct (Untyped r) = ur_product_id r"

subsection \<open>A concrete planning session\<close>

text \<open>
  The scenario of the specification: product \<open>P1\<close> of category AMB, region \<open>R1\<close>, the
  months January to March 2026 and one stored plan for January. \<open>exState\<close> is the store
  after the plans were fetched and pivoted.
\<close>

definition exProduct :: MasterProduct where
  "exProduct = \<lparr> p_id = ''P1'', p_kode_barang = ''YUAMF.001'', p_nama_produk = None,
       p_tipe = ''NS-40-ZL'', p_kategori = AMB, p_std_pallet = 100, p_isi_dus = 4,
       p_created_at = ''2026-01-01'', p_updated_at = ''2026-01-01'' \<rparr>"

definition exPlan :: SalesPlanDetail where
  "exPlan = \<lparr> sp_id = ''S1'', sp_bulan_tahun = ''2026-01-01'', sp_bulan_label = ''Jan 2026'',
       sp_product_id = ''P1'', sp_kode_barang = ''YUAMF.001'', sp_kategori = AMB,
       sp_region_id = ''R1'', sp_region_kode = ''JKT'',
       sp_target_jual = 0, sp_estimasi_jual = 60, sp_realisasi_sales = 0,
       sp_stok_awal = 100, sp_stok_akhir = 90, sp_order_qty = 50, sp_ito = 0 \<rparr>"

definition exFilter :: PlanningFilter where
  "exFilter = \<lparr> f_region_id = Some ''R1'', f_kategori = None, f_year = 2026,
       f_startMonth = 1, f_endMonth = 3 \<rparr>"

definition exState :: PlanningState where
  "exState = transformToPivotedData
     \<lparr> products = [exProduct], regions = [], salesPlanDetails = [exPlan], pivotedData = [],
       isLoading = False, isSaving = False, error = None,
       currentFilter = exFilter, modifiedCells = [], inherited = [] \<rparr>"

text \<open>
  A catalogue of three products in the order of the product query, with the category
  filter set to AMB and one stored plan for a product of the other category.
\<close>

definition exProduct2 :: MasterProduct where
  "exProduct2 = \<lparr> p_id = ''P2'', p_kode_barang = ''YUAMF.002'', p_nama_produk = None,
       p_tipe = ''NS-60-L'', p_kategori = AMB, p_std_pallet = 80, p_isi_dus = 2,
       p_created_at = ''2026-01-01'', p_updated_at = ''2026-01-01'' \<rparr>"

definition exProduct3 :: MasterProduct where
  "exProduct3 = \<lparr> p_id = ''P3'', p_kode_barang = ''YUMCB.001'', p_nama_produk = None,
       p_tipe = ''YTZ-5S'', p_kategori = MCB, p_std_pallet = 200, p_isi_dus = 10,
       p_created_at = ''2026-01-01'', p_updated_at = ''2026-01-01'' \<rparr>"

definition exPlanMCB :: SalesPlanDetail where
  "exPlanMCB = \<lparr> sp_id = ''S9'', sp_bulan_tahun = ''2026-01-01'', sp_bulan_label = ''Jan 2026'',
       sp_product_id = ''P3'', sp_kode_barang = ''YUMCB.001'', sp_kategori = MCB,
       sp_region_id = ''R1'', sp_region_kode = ''JKT'',
       sp_target_jual = 5, sp_estimasi_jual = 4, sp_realisasi_sales = 3,
       sp_stok_awal = 10, sp_stok_akhir = 8, sp_order_qty = 2, sp_ito = 1 \<rparr>"

definition exCatalog :: PlanningState where
  "exCatalog =
     \<lparr> products = [exProduct, exProduct2, exProduct3], regions = [],
       salesPlanDetails = [exPlan, exPlanMCB], pivotedData = [],
       isLoading = False, isSaving = False, error = None,
       currentFilter = exFilter\<lparr>f_kategori := Some AMB\<rparr>, modifiedCells = [],
       inherited = [] \<rparr>"

text \<open>The same three products in another order, with no category filter and no plans.\<close>

definition exUnsorted :: PlanningState where
  "exUnsorted =
     \<lparr> products = [exProduct, exProduct3, exProduct2], regions = [],
       salesPlanDetails = [], pivotedData = [],
       isLoading = False, isSaving = False, error = None,
       currentFilter = exFilter, modifiedCells = [], inherited = [] \<rparr>"

text \<open>
  The concrete session after edits: first the February cell of \<open>P1\<close> gets the opening
  stock 40, then the January cell the target 70. The databases of the examples: a query
  that finds no plans, a query that throws, an upsert that succeeds, an upsert that fails;
  and two changes of the filter, to region \<open>R2\<close> and to no region.
\<close>

definition exFebEdited :: MonthData where
  "exFebEdited = \<lparr> md_id = None, md_bulan_tahun = ''2026-02-01'', md_bulan_label = ''Feb 2026'',
       md_target_jual = 0, md_estimasi_jual = 0, md_realisasi_sales = 0,
       md_stok_awal = 40, md_stok_akhir = 40, md_order_qty = 0, md_ito = 0,
       md_isModified = True \<rparr>"

definition exEdited :: PlanningState where
  "exEdited = updateCell ''P1'' ''2026-02'' K_stok_awal 40 exState"

definition exSelectEmpty :: plan_query where
  "exSelectEmpty region startDate endDate kategori = Inr []"

definition exSelectOffline :: plan_query where
  "exSelectOffline region startDate endDate kategori = Inl (Error ''offline'')"

definition exUpsertOk :: "UpsertItem list \<Rightarrow> js_thrown option" where
  "exUpsertOk records = None"

definition exUpsertRejected :: "UpsertItem list \<Rightarrow> js_thrown option" where
  "exUpsertRejected records = Some (Error ''rejected'')"

definition exRegionR2 :: PartialFilter where
  "exRegionR2 = \<lparr> pf_region_id = Some (Some ''R2''), pf_kategori = None, pf_year = None,
       pf_startMonth = None, pf_endMonth = None \<rparr>"




text \<open>
  A database that accepts one batch of records and rejects every other one; the two
  records that the session edited twice is to send under region \<open>R1\<close>, and the record
  of the February cell under region \<open>R2\<close>.
\<close>

definition exUpsertExpecting :: "UpsertItem list \<Rightarrow> UpsertItem list \<Rightarrow> js_thrown option" where
  "exUpsertExpecting expected records =
     (if records = expected then None else Some (Error ''unexpected batch''))"

definition exFebRecord :: "string \<Rightarrow> UpsertItem" where
  "exFebRecord region =
     Typed \<lparr> u_id = None, u_product_id = ''P1'', u_region_id = region,
       u_bulan_tahun = ''2026-02-01'', u_target_jual = 0, u_estimasi_jual = 0,
       u_realisasi_sales = 0, u_stok_awal = 40, u_stok_akhir = 40, u_order_qty = 0,
       u_ito = 0 \<rparr>"


text \<open>
  The session after the edit was saved while the query for the plans failed: the upsert
  succeeded, \<^verbatim>\<open>modifiedCells\<close> is empty, and the pivot still shows the edit.
\<close>

definition exStale :: PlanningState where
  "exStale = saveChanges exUpsertOk exSelectOffline exEdited"


section \<open>Properties of cell edits\<close>

subsection \<open>Reading a cell after an edit\<close>

lemma find_updateFirst_keep:
  assumes "\<And>x. P x \<Longrightarrow> P (g x)"
  shows "find P (updateFirst P g xs) = map_option g (find P xs)"
  using assms by (induction xs) auto

lemma find_updateFirst_other:
  assumes "\<And>x. Q (g x) = Q x" and "\<And>x. Q x \<Longrightarrow> \<not> P x"
  shows "find Q (updateFirst P g xs) = find Q xs"
  using assms by (induction xs) auto

lemma cellAt_updateCell_same:
  assumes "cellAt (pivotedData s) p k = Some c"
  shows "cellAt (pivotedData (updateCell p k fld v s)) p k = Some (editMonthData fld v c)"
  using assms
  by (auto simp: cellAt_def updateCell_def Let_def find_updateFirst_keep update_conv'
           split: option.splits)

lemma cellAt_updateCell_other:
  assumes "(p', k') \<noteq> (p, k)"
  shows "cellAt (pivotedData (updateCell p k fld v s)) p' k' = cellAt (pivotedData s) p' k'"
proof (cases "p' = p")
  case True
  with assms have "k' \<noteq> k" by simp
  with True show ?thesis
    by (auto simp: cellAt_def updateCell_def Let_def find_updateFirst_keep update_conv'
             split: option.splits)
next
  case False
  then have "find (\<lambda>r. row_product_id r = p')
               (updateFirst (\<lambda>r. row_product_id r = p) g (pivotedData s))
             = find (\<lambda>r. row_product_id r = p') (pivotedData s)"
    if "\<And>x. row_product_id (g x) = row_product_id x" for g
    using that by (intro find_updateFirst_other) auto
  then show ?thesis
    by (auto simp: cellAt_def updateCell_def Let_def split: option.splits)
qed

lemma cellAt_updateCell_exists:
  assumes "cellAt (pivotedData s) p k = Some c"
  shows "\<exists>c'. cellAt (pivotedData (updateCell p' k' fld v s)) p k = Some c'"
proof (cases "(p, k) = (p', k')")
  case True
  with assms cellAt_updateCell_same [of s p k c fld v] show ?thesis by auto
next
  case False
  with assms show ?thesis by (simp add: cellAt_updateCell_other)
qed

lemma cellAt_applyEdits_exists:
  assumes "cellAt (pivotedData s) p k = Some c"
  shows "\<exists>c'. cellAt (pivotedData (applyEdits es s)) p k = Some c'"
  using assms
proof (induction es arbitrary: s c)
  case Nil
  then show ?case by (simp add: applyEdits_def)
next
  case (Cons e es)
  obtain p' k' fld v where e: "e = (p', k', fld, v)" by (cases e) auto
  from cellAt_updateCell_exists [OF Cons.prems, of p' k' fld v]
  obtain c' where "cellAt (pivotedData (updateCell p' k' fld v s)) p k = Some c'" ..
  from Cons.IH [OF this] show ?case by (simp add: applyEdits_def e)
qed

lemma updateCell_inputs:
  "products (updateCell p k fld v s) = products s"
  "salesPlanDetails (updateCell p k fld v s) = salesPlanDetails s"
  "currentFilter (updateCell p k fld v s) = currentFilter s"
  by (auto simp: updateCell_def Let_def split: option.splits)

lemma applyEdits_inputs:
  "products (applyEdits es s) = products s \<and>
   salesPlanDetails (applyEdits es s) = salesPlanDetails s \<and>
   currentFilter (applyEdits es s) = currentFilter s"
proof (induction es arbitrary: s)
  case Nil
  show ?case by (simp add: applyEdits_def)
next
  case (Cons e es)
  obtain p k fld v where e: "e = (p, k, fld, v)" by (cases e) auto
  from Cons.IH [of "updateCell p k fld v s"] show ?case
    by (simp add: applyEdits_def e updateCell_inputs)
qed

subsection \<open>The concrete session, evaluated\<close>

lemma exFilter_monthColumns:
  "monthColumns exFilter =
     [\<lparr>mc_key = ''2026-01'', mc_label = ''Jan 2026'', mc_date = ''2026-01-01''\<rparr>,
      \<lparr>mc_key = ''2026-02'', mc_label = ''Feb 2026'', mc_date = ''2026-02-01''\<rparr>,
      \<lparr>mc_key = ''2026-03'', mc_label = ''Mar 2026'', mc_date = ''2026-03-01''\<rparr>]"
  by (simp add: monthColumns_def exFilter_def monthColumn_def toString_def nat_toString.simps
        digit_char_def padStart_def monthNames_def upto_rec1 Let_def)

lemma exState_rows:
  "pivotedData exState =
     [\<lparr>row_product_id = ''P1'', row_kode_barang = ''YUAMF.001'',
       row_nama_produk = None, row_tipe = ''NS-40-ZL'',
       row_kategori = AMB, row_std_pallet = 100, row_isi_dus = 4,
       row_region_id = ''R1'', row_region_kode = ''JKT'',
       row_months =
         [(''2026-01'', monthDataOfPlan exPlan),
          (''2026-02'', createEmptyMonthData ''2026-02-01'' ''Feb 2026''),
          (''2026-03'', createEmptyMonthData ''2026-03-01'' ''Mar 2026'')]\<rparr>]"
  unfolding exState_def transformToPivotedData_def pivotRows_def
  by (simp add: exFilter_monthColumns filteredProducts_def initProductMap_def initRow_def
        initMonths_def fillPlan_def Let_def)
     (simp add: exFilter_def exProduct_def exPlan_def)

lemma exState_jan:
  "cellAt (pivotedData exState) ''P1'' ''2026-01'' = Some (monthDataOfPlan exPlan)"
  by (simp add: cellAt_def exState_rows)

lemma exState_feb:
  "cellAt (pivotedData exState) ''P1'' ''2026-02''
   = Some (createEmptyMonthData ''2026-02-01'' ''Feb 2026'')"
  by (simp add: cellAt_def exState_rows)

lemma exState_edit_feb:
  "cellAt (pivotedData (applyEdits [(''P1'', ''2026-02'', K_stok_awal, 40)] exState))
     ''P1'' ''2026-02''
   = Some ((createEmptyMonthData ''2026-02-01'' ''Feb 2026'')
             \<lparr>md_stok_awal := 40, md_stok_akhir := 40, md_isModified := True\<rparr>)"
  by (simp add: applyEdits_def cellAt_updateCell_same [OF exState_feb] editMonthData_def
        createEmptyMonthData_def)

subsection \<open>Recomputation of the closing stock\<close>

text \<open>
  Claim C1. Take any state of the store in which the cell \<open>(productId, monthKey)\<close> exists,
  let any sequence \<open>es\<close> of \<^verbatim>\<open>updateCell\<close> calls run, and then call \<^verbatim>\<open>updateCell\<close> on the
  cell with one of the fields \<^verbatim>\<open>stok_awal\<close>, \<^verbatim>\<open>order_qty\<close>, \<^verbatim>\<open>estimasi_jual\<close> and any
  value \<open>v\<close> (the current value of the field included). Then the cell still exists, its
  \<^verbatim>\<open>stok_akhir\<close> equals \<^verbatim>\<open>stok_awal + order_qty - estimasi_jual\<close> of the cell itself, the
  cell is flagged as modified, the named field holds \<open>v\<close> and the other two inputs of the
  formula are the ones the cell had before the call.
\<close>

theorem updateCell_recompute_invariant:
  assumes "cellAt (pivotedData s) productId monthKey = Some c"
    and "field \<in> set [K_stok_awal, K_order_qty, K_estimasi_jual]"
  shows "\<exists>c1 c2.
           cellAt (pivotedData (applyEdits es s)) productId monthKey = Some c1
         \<and> cellAt (pivotedData (updateCell productId monthKey field v (applyEdits es s)))
              productId monthKey = Some c2
         \<and> md_stok_akhir c2 = md_stok_awal c2 + md_order_qty c2 - md_estimasi_jual c2
         \<and> md_isModified c2
         \<and> md_stok_awal c2 = (if field = K_stok_awal then v else md_stok_awal c1)
         \<and> md_order_qty c2 = (if field = K_order_qty then v else md_order_qty c1)
         \<and> md_estimasi_jual c2 = (if field = K_estimasi_jual then v else md_estimasi_jual c1)"
proof -
  from cellAt_applyEdits_exists [OF assms(1)]
  obtain c1 where c1: "cellAt (pivotedData (applyEdits es s)) productId monthKey = Some c1" ..
  let ?c2 = "editMonthData field v c1"
  have c2: "cellAt (pivotedData (updateCell productId monthKey field v (applyEdits es s)))
              productId monthKey = Some ?c2"
    by (rule cellAt_updateCell_same [OF c1])
  from assms(2) have "field = K_stok_awal \<or> field = K_order_qty \<or> field = K_estimasi_jual"
    by simp
  then have "md_stok_akhir ?c2 = md_stok_awal ?c2 + md_order_qty ?c2 - md_estimasi_jual ?c2
      \<and> md_isModified ?c2
      \<and> md_stok_awal ?c2 = (if field = K_stok_awal then v else md_stok_awal c1)
      \<and> md_order_qty ?c2 = (if field = K_order_qty then v else md_order_qty c1)
      \<and> md_estimasi_jual ?c2 = (if field = K_estimasi_jual then v else md_estimasi_jual c1)"
    by (auto simp: editMonthData_def)
  with c1 c2 show ?thesis by blast
qed

theorem updateCell_recompute_invariant_witness:
  "\<exists>c1 c2.
       cellAt (pivotedData (applyEdits [(''P1'', ''2026-02'', K_order_qty, 7),
                                         (''P1'', ''2026-02'', K_stok_awal, 40)] exState))
          ''P1'' ''2026-02'' = Some c1
     \<and> cellAt (pivotedData (updateCell ''P1'' ''2026-02'' K_stok_awal 40
                  (applyEdits [(''P1'', ''2026-02'', K_order_qty, 7),
                               (''P1'', ''2026-02'', K_stok_awal, 40)] exState)))
          ''P1'' ''2026-02'' = Some c2
     \<and> md_stok_akhir c2 = md_stok_awal c2 + md_order_qty c2 - md_estimasi_jual c2
     \<and> md_isModified c2
     \<and> md_stok_awal c2 = 40
     \<and> md_order_qty c2 = md_order_qty c1
     \<and> md_estimasi_jual c2 = md_estimasi_jual c1"
proof -
  have fld: "K_stok_awal \<in> set [K_stok_awal, K_order_qty, K_estimasi_jual]" by simp
  from updateCell_recompute_invariant [OF exState_feb fld,
      of "[(''P1'', ''2026-02'', K_order_qty, 7), (''P1'', ''2026-02'', K_stok_awal, 40)]" 40]
  show ?thesis by simp
qed

subsection \<open>Fields that leave the closing stock alone\<close>

text \<open>
  Claim C6. When \<^verbatim>\<open>updateCell\<close> is called on an existing cell with one of the fields
  \<^verbatim>\<open>target_jual\<close>, \<^verbatim>\<open>realisasi_sales\<close>, \<^verbatim>\<open>ito\<close>, the cell afterwards has the same
  \<^verbatim>\<open>stok_akhir\<close> as before, the named field holds the value, the flag is set, and every
  other field of the cell is what it was.
\<close>

theorem updateCell_other_fields_frame:
  assumes "cellAt (pivotedData s) productId monthKey = Some c"
    and "field \<in> set [K_target_jual, K_realisasi_sales, K_ito]"
  shows "\<exists>c'. cellAt (pivotedData (updateCell productId monthKey field v s)) productId monthKey
                = Some c'
         \<and> md_stok_akhir c' = md_stok_akhir c
         \<and> md_id c' = md_id c
         \<and> md_bulan_tahun c' = md_bulan_tahun c
         \<and> md_bulan_label c' = md_bulan_label c
         \<and> md_stok_awal c' = md_stok_awal c
         \<and> md_order_qty c' = md_order_qty c
         \<and> md_estimasi_jual c' = md_estimasi_jual c
         \<and> md_target_jual c' = (if field = K_target_jual then v else md_target_jual c)
         \<and> md_realisasi_sales c' = (if field = K_realisasi_sales then v else md_realisasi_sales c)
         \<and> md_ito c' = (if field = K_ito then v else md_ito c)
         \<and> md_isModified c'"
proof -
  from assms(2) have "field = K_target_jual \<or> field = K_realisasi_sales \<or> field = K_ito"
    by simp
  then show ?thesis
    unfolding cellAt_updateCell_same [OF assms(1)]
    by (auto simp: editMonthData_def)
qed

theorem updateCell_other_fields_frame_witness:
  "\<exists>c'. cellAt (pivotedData (updateCell ''P1'' ''2026-01'' K_ito (3 / 2) exState))
            ''P1'' ''2026-01'' = Some c'
       \<and> md_stok_akhir c' = 90 \<and> md_stok_awal c' = 100 \<and> md_order_qty c' = 50
       \<and> md_estimasi_jual c' = 60 \<and> md_ito c' = 3 / 2 \<and> md_isModified c'"
proof -
  have fld: "K_ito \<in> set [K_target_jual, K_realisasi_sales, K_ito]" by simp
  from updateCell_other_fields_frame [OF exState_jan fld, of "3 / 2"]
  show ?thesis by (auto simp: monthDataOfPlan_def exPlan_def)
qed

subsection \<open>Edits that address no cell\<close>

text \<open>
  When no row of the pivot has the product identifier, or the row that \<^verbatim>\<open>find\<close> returns
  has no cell under the month key and the month key is not the name of an inherited member,
  \<^verbatim>\<open>updateCell\<close> returns the store as it was.
\<close>

lemma updateCell_absent:
  assumes "cellAt (pivotedData s) p k = None" and "k \<notin> set objectPrototypeMembers"
  shows "updateCell p k fld v s = s"
  using assms by (auto simp: cellAt_def updateCell_def split: option.splits)

lemma updateCell_no_row:
  assumes "find (\<lambda>r. row_product_id r = p) (pivotedData s) = None"
  shows "updateCell p k fld v s = s"
  using assms by (simp add: updateCell_def)

lemma updateCell_cell_no_TypeError:
  assumes "cellAt (pivotedData s) p k = Some c"
  shows "\<not> updateCellTypeError p k s"
  using assms by (auto simp: cellAt_def updateCellTypeError_def split: option.splits)

text \<open>
  When the row exists, has no cell under the month key, and the month key is the name of an
  inherited member, \<^verbatim>\<open>updateCell\<close> leaves the pivot alone and stores an entry under the
  key of the position, whatever the field and the value are.
\<close>

lemma updateCell_inherited_member:
  assumes "find (\<lambda>r. row_product_id r = p) (pivotedData s) = Some row"
    and "map_of (row_months row) k = None"
    and "k \<in> set objectPrototypeMembers"
  shows "pivotedData (updateCell p k fld v s) = pivotedData s"
    and "map_of (modifiedCells (updateCell p k fld v s)) (cellKey p k)
         = Some (InheritedCopy (ownProps (inherited (updateCell p k fld v s)) k))"
    and "hasUnsavedChanges (updateCell p k fld v s)"
proof -
  let ?objs = "editInherited k fld v (inherited s)"
  have eq: "updateCell p k fld v s
            = s\<lparr>inherited := ?objs,
                modifiedCells := AList.update (cellKey p k) (InheritedCopy (ownProps ?objs k))
                                   (modifiedCells s)\<rparr>"
    using assms by (simp add: updateCell_def Let_def)
  show "pivotedData (updateCell p k fld v s) = pivotedData s" by (simp add: eq)
  show "map_of (modifiedCells (updateCell p k fld v s)) (cellKey p k)
        = Some (InheritedCopy (ownProps (inherited (updateCell p k fld v s)) k))"
    by (simp add: eq update_conv')
  have "cellKey p k \<in> fst ` set (modifiedCells (updateCell p k fld v s))"
    by (simp add: eq dom_update)
  then have "modifiedCells (updateCell p k fld v s) \<noteq> []" by auto
  then show "hasUnsavedChanges (updateCell p k fld v s)" by (simp add: hasUnsavedChanges_def)
qed


section \<open>Properties of the pivot transform\<close>

subsection \<open>Association lists\<close>

lemma update_fresh: "k \<notin> fst ` set al \<Longrightarrow> AList.update k v al = al @ [(k, v)]"
  by (induction al) auto

lemma set_update_subset: "set (AList.update k v al) \<subseteq> insert (k, v) (set al)"
  by (induction al) auto

lemma update_present_keys:
  "map_of al k = Some v \<Longrightarrow> map fst (AList.update k v' al) = map fst al"
  by (induction al) (auto split: if_splits)

lemma update_present_map:
  "map_of al k = Some v \<Longrightarrow> g (k, v') = g (k, v) \<Longrightarrow> map g (AList.update k v' al) = map g al"
  by (induction al) (auto split: if_splits)

lemma foldl_update_fresh:
  "distinct (map kf xs) \<Longrightarrow> kf ` set xs \<inter> fst ` set acc = {} \<Longrightarrow>
   foldl (\<lambda>m x. AList.update (kf x) (vf x) m) acc xs = acc @ map (\<lambda>x. (kf x, vf x)) xs"
proof (induction xs arbitrary: acc)
  case Nil
  show ?case by simp
next
  case (Cons x xs)
  from Cons.prems have fresh: "kf x \<notin> fst ` set acc" by auto
  have "kf ` set xs \<inter> fst ` set (acc @ [(kf x, vf x)]) = {}"
    using Cons.prems by auto
  with Cons.IH [of "acc @ [(kf x, vf x)]"] Cons.prems show ?case
    by (simp add: update_fresh [OF fresh])
qed

lemma foldl_update_keys:
  "fst ` set (foldl (\<lambda>m x. AList.update (kf x) (vf x) m) acc xs) = fst ` set acc \<union> kf ` set xs"
  by (induction xs arbitrary: acc) (auto simp: dom_update)

lemma foldl_update_distinct:
  "distinct (map fst acc) \<Longrightarrow>
   distinct (map fst (foldl (\<lambda>m x. AList.update (kf x) (vf x) m) acc xs))"
  by (induction xs arbitrary: acc) (auto simp: distinct_update)

lemma foldl_update_values:
  "e \<in> set (foldl (\<lambda>m x. AList.update (kf x) (vf x) m) acc xs) \<Longrightarrow>
   e \<in> set acc \<or> (\<exists>x \<in> set xs. e = (kf x, vf x))"
proof (induction xs arbitrary: acc)
  case Nil
  then show ?case by simp
next
  case (Cons x xs)
  from Cons.IH [of "AList.update (kf x) (vf x) acc"] Cons.prems
  have "e \<in> set (AList.update (kf x) (vf x) acc) \<or> (\<exists>y \<in> set xs. e = (kf y, vf y))" by simp
  with set_update_subset [of "kf x" "vf x" acc] show ?case by auto
qed

lemma find_map_snd:
  "\<forall>e \<in> set pm. key (snd e) = fst e \<Longrightarrow> find (\<lambda>r. key r = p) (map snd pm) = map_of pm p"
  by (induction pm) auto

subsection \<open>The first pass\<close>

lemma initProductMap_keys:
  "fst ` set (initProductMap f ps) = p_id ` set ps"
  by (simp add: initProductMap_def foldl_update_keys)

lemma initProductMap_distinct: "distinct (map fst (initProductMap f ps))"
  by (simp add: initProductMap_def foldl_update_distinct)

lemma initProductMap_values:
  "e \<in> set (initProductMap f ps) \<Longrightarrow> \<exists>p \<in> set ps. e = (p_id p, initRow f p)"
  unfolding initProductMap_def by (drule foldl_update_values) auto

lemma initProductMap_distinct_ids:
  "distinct (map p_id ps) \<Longrightarrow> initProductMap f ps = map (\<lambda>p. (p_id p, initRow f p)) ps"
  unfolding initProductMap_def by (subst foldl_update_fresh) auto

lemma initMonths_keys: "fst ` set (initMonths cols) = mc_key ` set cols"
  by (simp add: initMonths_def foldl_update_keys)

lemma initMonths_values:
  "e \<in> set (initMonths cols) \<Longrightarrow>
   \<exists>col \<in> set cols. e = (mc_key col, createEmptyMonthData (mc_date col) (mc_label col))"
  unfolding initMonths_def by (drule foldl_update_values) auto

lemma initMonths_distinct_keys:
  "distinct (map mc_key cols) \<Longrightarrow>
   initMonths cols = map (\<lambda>col. (mc_key col, createEmptyMonthData (mc_date col) (mc_label col))) cols"
  unfolding initMonths_def by (subst foldl_update_fresh) auto

subsection \<open>The second pass\<close>

lemma fillPlan_shape: "map rowShape (fillPlan pm plan) = map rowShape pm"
proof (cases "map_of pm (sp_product_id plan)")
  case None
  then show ?thesis by (simp add: fillPlan_def)
next
  case (Some row)
  show ?thesis
    unfolding fillPlan_def Some option.case Let_def
    by (rule update_present_map [OF Some])
       (auto simp: rowShape_def update_present_keys split: option.splits)
qed

lemma foldl_fillPlan_shape: "map rowShape (foldl fillPlan pm plans) = map rowShape pm"
  by (induction plans arbitrary: pm) (simp_all add: fillPlan_shape)

lemma fillPlan_cell:
  "cellOfMap (fillPlan pm plan) p k =
     (if p = sp_product_id plan \<and> k = take 7 (sp_bulan_tahun plan) \<and> cellOfMap pm p k \<noteq> None
      then Some (monthDataOfPlan plan) else cellOfMap pm p k)"
  by (auto simp: cellOfMap_def fillPlan_def Let_def update_conv' split: option.splits)

lemma find_snoc:
  "find P (xs @ [x]) = (case find P xs of Some y \<Rightarrow> Some y | None \<Rightarrow> if P x then Some x else None)"
  by (induction xs) auto

lemma foldl_fillPlan_cell:
  "cellOfMap (foldl fillPlan pm plans) p k =
     (case cellOfMap pm p k of
        None \<Rightarrow> None
      | Some c \<Rightarrow>
          (case find (\<lambda>pl. sp_product_id pl = p \<and> take 7 (sp_bulan_tahun pl) = k) (rev plans) of
             None \<Rightarrow> Some c
           | Some pl \<Rightarrow> Some (monthDataOfPlan pl)))"
proof (induction plans arbitrary: pm)
  case Nil
  show ?case by (simp split: option.splits)
next
  case (Cons plan plans)
  let ?P = "\<lambda>pl. sp_product_id pl = p \<and> take 7 (sp_bulan_tahun pl) = k"
  note step = Cons.IH [of "fillPlan pm plan"]
  show ?case
  proof (cases "cellOfMap pm p k")
    case None
    then have "cellOfMap (fillPlan pm plan) p k = None" by (simp add: fillPlan_cell)
    with None step show ?thesis by simp
  next
    case (Some c)
    show ?thesis
    proof (cases "?P plan")
      case True
      with Some have "cellOfMap (fillPlan pm plan) p k = Some (monthDataOfPlan plan)"
        by (simp add: fillPlan_cell)
      with Some True step show ?thesis
        by (simp add: find_snoc split: option.splits)
    next
      case False
      with Some have "cellOfMap (fillPlan pm plan) p k = Some c"
        by (auto simp: fillPlan_cell)
      with Some False step show ?thesis
        by (auto simp: find_snoc split: option.splits)
    qed
  qed
qed

subsection \<open>Month keys\<close>

lemma monthStr_table:
  assumes "1 \<le> m" and "m \<le> 12"
  shows "padStart 2 (CHR ''0'') (toString m) = monthStrs ! nat (m - 1)"
proof -
  from assms have "m = 1 \<or> m = 2 \<or> m = 3 \<or> m = 4 \<or> m = 5 \<or> m = 6 \<or> m = 7 \<or> m = 8
      \<or> m = 9 \<or> m = 10 \<or> m = 11 \<or> m = 12" by arith
  then show ?thesis
    by (elim disjE)
       (simp_all add: padStart_def toString_def nat_toString.simps digit_char_def monthStrs_def)
qed

lemma monthStr_inj:
  assumes "1 \<le> a" "a \<le> 12" "1 \<le> b" "b \<le> 12"
    and "padStart 2 (CHR ''0'') (toString a) = padStart 2 (CHR ''0'') (toString b)"
  shows "a = b"
proof -
  have d: "distinct monthStrs" by (simp add: monthStrs_def)
  have l: "length monthStrs = 12" by (simp add: monthStrs_def)
  from assms have "monthStrs ! nat (a - 1) = monthStrs ! nat (b - 1)"
    by (simp add: monthStr_table)
  moreover from assms l have "nat (a - 1) < length monthStrs" "nat (b - 1) < length monthStrs"
    by auto
  ultimately have "nat (a - 1) = nat (b - 1)"
    using d by (simp add: nth_eq_iff_index_eq)
  with assms show ?thesis by arith
qed

lemma monthColumns_distinct_keys:
  assumes "1 \<le> f_startMonth f" and "f_endMonth f \<le> 12"
  shows "distinct (map mc_key (monthColumns f))"
proof -
  have "inj_on (\<lambda>m. mc_key (monthColumn (f_year f) m)) (set [f_startMonth f .. f_endMonth f])"
  proof (rule inj_onI)
    fix a b
    assume a: "a \<in> set [f_startMonth f .. f_endMonth f]"
      and b: "b \<in> set [f_startMonth f .. f_endMonth f]"
      and eq: "mc_key (monthColumn (f_year f) a) = mc_key (monthColumn (f_year f) b)"
    from a b assms have r: "1 \<le> a" "a \<le> 12" "1 \<le> b" "b \<le> 12" by auto
    from eq have "padStart 2 (CHR ''0'') (toString a) = padStart 2 (CHR ''0'') (toString b)"
      by (simp add: monthColumn_def Let_def)
    with r show "a = b" by (rule monthStr_inj)
  qed
  then show ?thesis
    by (simp add: monthColumns_def distinct_map comp_def)
qed

lemma monthColumns_length:
  "f_startMonth f \<le> f_endMonth f \<Longrightarrow>
   length (monthColumns f) = nat (f_endMonth f - f_startMonth f + 1)"
  by (simp add: monthColumns_def)

subsection \<open>Rows of the pivot\<close>

lemma pivotRows_shape:
  "map rowShape (foldl fillPlan (initProductMap f ps) plans) = map rowShape (initProductMap f ps)"
  by (rule foldl_fillPlan_shape)

lemma pivotRows_ids_distinct: "distinct (map row_product_id (pivotRows ps f plans))"
proof -
  let ?pm = "foldl fillPlan (initProductMap f (filteredProducts ps f)) plans"
  have "map (fst \<circ> snd) (map rowShape ?pm)
        = map (fst \<circ> snd) (map rowShape (initProductMap f (filteredProducts ps f)))"
    by (simp only: foldl_fillPlan_shape)
  then have "map row_product_id (map snd ?pm)
             = map (\<lambda>e. row_product_id (snd e)) (initProductMap f (filteredProducts ps f))"
    by (simp add: rowShape_def comp_def)
  also have "\<dots> = map fst (initProductMap f (filteredProducts ps f))"
    by (rule map_cong) (auto dest!: initProductMap_values simp: initRow_def)
  finally show ?thesis
    by (simp add: pivotRows_def initProductMap_distinct)
qed

lemma filteredProducts_filter:
  "filteredProducts ps f
   = filter (\<lambda>p. case f_kategori f of None \<Rightarrow> True | Some k \<Rightarrow> p_kategori p = k) ps"
  by (simp add: filteredProducts_def split: option.splits)

lemma pivotRows_columns:
  assumes "distinct (map p_id ps)"
  shows "map (\<lambda>r. (row_product_id r, row_kategori r, row_kode_barang r)) (pivotRows ps f plans)
         = map (\<lambda>p. (p_id p, p_kategori p, p_kode_barang p)) (filteredProducts ps f)"
proof -
  let ?cand = "filteredProducts ps f"
  let ?pm = "foldl fillPlan (initProductMap f ?cand) plans"
  from assms have "distinct (map p_id ?cand)"
    by (simp add: filteredProducts_filter distinct_map_filter)
  then have init: "initProductMap f ?cand = map (\<lambda>p. (p_id p, initRow f p)) ?cand"
    by (rule initProductMap_distinct_ids)
  have "map (\<lambda>r. (row_product_id r, row_kategori r, row_kode_barang r)) (map snd ?pm)
        = map (\<lambda>t. (fst (snd t), fst (snd (snd t)), fst (snd (snd (snd t))))) (map rowShape ?pm)"
    by (simp add: rowShape_def comp_def)
  also have "\<dots> = map (\<lambda>t. (fst (snd t), fst (snd (snd t)), fst (snd (snd (snd t)))))
                      (map rowShape (initProductMap f ?cand))"
    by (simp only: foldl_fillPlan_shape)
  also have "\<dots> = map (\<lambda>p. (p_id p, p_kategori p, p_kode_barang p)) ?cand"
    by (simp add: init rowShape_def comp_def initRow_def)
  finally show ?thesis by (simp add: pivotRows_def)
qed

lemma pivotRows_month_keys:
  assumes "row \<in> set (pivotRows ps f plans)"
  shows "map fst (row_months row) = map fst (initMonths (monthColumns f))"
proof -
  let ?init = "initProductMap f (filteredProducts ps f)"
  let ?pm = "foldl fillPlan ?init plans"
  from assms obtain e where e: "e \<in> set ?pm" and row: "row = snd e"
    by (auto simp: pivotRows_def)
  from e have "rowShape e \<in> set (map rowShape ?pm)" by simp
  then have "rowShape e \<in> set (map rowShape ?init)" by (simp only: foldl_fillPlan_shape)
  then obtain e' where mem: "e' \<in> set ?init" and sh: "rowShape e = rowShape e'" by auto
  from initProductMap_values [OF mem] obtain p where "e' = (p_id p, initRow f p)" by auto
  with sh row show ?thesis by (simp add: rowShape_def initRow_def)
qed


subsection \<open>Cells of the pivot\<close>

lemma foldl_fillPlan_ids:
  assumes "e \<in> set (foldl fillPlan (initProductMap f ps) plans)"
  shows "row_product_id (snd e) = fst e"
proof -
  let ?init = "initProductMap f ps"
  from assms have "rowShape e \<in> set (map rowShape (foldl fillPlan ?init plans))" by simp
  then have "rowShape e \<in> set (map rowShape ?init)" by (simp only: foldl_fillPlan_shape)
  then obtain e' where mem: "e' \<in> set ?init" and sh: "rowShape e = rowShape e'" by auto
  from initProductMap_values [OF mem] obtain p where "e' = (p_id p, initRow f p)" by auto
  with sh show ?thesis by (simp add: rowShape_def initRow_def)
qed

lemma cellAt_pivotRows:
  "cellAt (pivotRows ps f plans) p k
   = cellOfMap (foldl fillPlan (initProductMap f (filteredProducts ps f)) plans) p k"
proof -
  let ?pm = "foldl fillPlan (initProductMap f (filteredProducts ps f)) plans"
  have "\<forall>e \<in> set ?pm. row_product_id (snd e) = fst e"
    by (auto dest: foldl_fillPlan_ids)
  then have "find (\<lambda>r. row_product_id r = p) (map snd ?pm) = map_of ?pm p"
    by (rule find_map_snd)
  then show ?thesis by (simp add: cellAt_def cellOfMap_def pivotRows_def)
qed

lemma cellOfMap_init:
  "cellOfMap (initProductMap f ps) p k
   = (if p \<in> p_id ` set ps then map_of (initMonths (monthColumns f)) k else None)"
proof (cases "map_of (initProductMap f ps) p")
  case None
  then have "p \<notin> fst ` set (initProductMap f ps)" by (simp add: map_of_eq_None_iff)
  with None show ?thesis by (simp add: cellOfMap_def initProductMap_keys)
next
  case (Some row)
  then have mem: "(p, row) \<in> set (initProductMap f ps)" by (rule map_of_SomeD)
  from initProductMap_values [OF mem] obtain q where q: "q \<in> set ps" "p = p_id q" "row = initRow f q"
    by auto
  with Some show ?thesis by (auto simp: cellOfMap_def initRow_def)
qed

lemma map_of_initMonths:
  assumes "col \<in> set cols"
  shows "\<exists>col' \<in> set cols. mc_key col' = mc_key col \<and>
           map_of (initMonths cols) (mc_key col)
           = Some (createEmptyMonthData (mc_date col') (mc_label col'))"
proof -
  from assms have "mc_key col \<in> fst ` set (initMonths cols)" by (simp add: initMonths_keys)
  then obtain c where c: "map_of (initMonths cols) (mc_key col) = Some c"
    by (cases "map_of (initMonths cols) (mc_key col)") (auto simp: map_of_eq_None_iff)
  then have "(mc_key col, c) \<in> set (initMonths cols)" by (rule map_of_SomeD)
  from initMonths_values [OF this] c show ?thesis by auto
qed


lemma find_distinct_key:
  "distinct (map g xs) \<Longrightarrow> x \<in> set xs \<Longrightarrow> find (\<lambda>y. g y = g x) xs = Some x"
  by (induction xs) (auto simp: rev_image_eqI)

lemma pivotRows_cell:
  "cellAt (pivotRows ps f plans) p k =
     (if p \<in> p_id ` set (filteredProducts ps f) then
        (case map_of (initMonths (monthColumns f)) k of
           None \<Rightarrow> None
         | Some c \<Rightarrow>
             (case find (\<lambda>pl. sp_product_id pl = p \<and> take 7 (sp_bulan_tahun pl) = k) (rev plans) of
                None \<Rightarrow> Some c
              | Some pl \<Rightarrow> Some (monthDataOfPlan pl)))
      else None)"
  by (simp add: cellAt_pivotRows foldl_fillPlan_cell cellOfMap_init)

lemma pivotRows_not_modified:
  assumes "cellAt (pivotRows ps f plans) p k = Some c"
  shows "\<not> md_isModified c"
proof -
  from assms obtain c0 where c0: "map_of (initMonths (monthColumns f)) k = Some c0"
    by (auto simp: pivotRows_cell split: if_splits option.splits)
  then have "(k, c0) \<in> set (initMonths (monthColumns f))" by (rule map_of_SomeD)
  from initMonths_values [OF this] have "\<not> md_isModified c0"
    by (auto simp: createEmptyMonthData_def)
  with assms c0 show ?thesis
    by (auto simp: pivotRows_cell monthDataOfPlan_def split: if_splits option.splits)
qed

lemma fillPlan_keys: "map fst (fillPlan pm plan) = map fst pm"
proof -
  have "map fst (map rowShape (fillPlan pm plan)) = map fst (map rowShape pm)"
    by (simp only: fillPlan_shape)
  then show ?thesis by (simp add: rowShape_def comp_def)
qed

lemma fillPlan_foreign:
  "sp_product_id plan \<notin> fst ` set pm \<Longrightarrow> fillPlan pm plan = pm"
  by (simp add: fillPlan_def map_of_eq_None_iff [symmetric])

lemma foldl_fillPlan_filter:
  "foldl fillPlan pm plans = foldl fillPlan pm (filter (\<lambda>r. sp_product_id r \<in> fst ` set pm) plans)"
proof (induction plans arbitrary: pm)
  case Nil
  show ?case by simp
next
  case (Cons plan plans)
  have keys: "fst ` set (fillPlan pm plan) = fst ` set pm"
    using fillPlan_keys [of pm plan] by (metis list.set_map)
  show ?case
  proof (cases "sp_product_id plan \<in> fst ` set pm")
    case True
    with Cons.IH [of "fillPlan pm plan"] keys show ?thesis by simp
  next
    case False
    with Cons.IH [of pm] show ?thesis by (simp add: fillPlan_foreign)
  qed
qed

lemma pivotRows_drops_foreign:
  "pivotRows ps f plans
   = pivotRows ps f (filter (\<lambda>r. sp_product_id r \<in> p_id ` set (filteredProducts ps f)) plans)"
  unfolding pivotRows_def
  by (subst foldl_fillPlan_filter) (simp add: initProductMap_keys)

lemma monthColumns_date:
  "col \<in> set (monthColumns f) \<Longrightarrow> mc_date col = mc_key col @ ''-01''"
  by (auto simp: monthColumns_def monthColumn_def Let_def)

lemma fetchMasterData_products:
  "products (fetchMasterData (Inr productData) regionResult s) = productData"
  by (simp add: fetchMasterData_def Let_def split: sum.splits)

subsection \<open>Completeness and order of the pivot\<close>

text \<open>
  Claim C2, as amended. Let the products of the store have distinct identifiers (\<^verbatim>\<open>id\<close> is
  the primary key) and let the months of the filter satisfy
  \<open>1 \<le> startMonth \<le> endMonth \<le> 12\<close>. Then, whatever the fetched plans are, the rows that
  \<^verbatim>\<open>transformToPivotedData\<close> stores are, in the order of the product list, the products
  that pass the category filter, one row each and no other row; every row has exactly the
  month keys of \<^verbatim>\<open>monthColumns\<close>, each once, which are \<open>endMonth - startMonth + 1\<close>
  cells; and when the product list is ordered by category and then by product code (in any
  order \<open>le\<close> of the codes), as the product query of \<^verbatim>\<open>fetchMasterData\<close> asks the
  database to return it, so are the rows.
\<close>

theorem transformToPivotedData_complete_sorted:
  assumes "distinct (map p_id (products s))"
    and "1 \<le> f_startMonth (currentFilter s)"
    and "f_startMonth (currentFilter s) \<le> f_endMonth (currentFilter s)"
    and "f_endMonth (currentFilter s) \<le> 12"
  shows "map (\<lambda>r. (row_product_id r, row_kategori r, row_kode_barang r))
           (pivotedData (transformToPivotedData s))
         = map (\<lambda>p. (p_id p, p_kategori p, p_kode_barang p))
             (filter (\<lambda>p. case f_kategori (currentFilter s) of
                              None \<Rightarrow> True | Some k \<Rightarrow> p_kategori p = k) (products s))
       \<and> distinct (map row_product_id (pivotedData (transformToPivotedData s)))
       \<and> (\<forall>row \<in> set (pivotedData (transformToPivotedData s)).
             map fst (row_months row) = map mc_key (monthColumns (currentFilter s))
           \<and> distinct (map fst (row_months row))
           \<and> length (row_months row)
               = nat (f_endMonth (currentFilter s) - f_startMonth (currentFilter s) + 1))
       \<and> (sorted_wrt (productOrder le) (products s) \<longrightarrow>
            sorted_wrt (rowOrder le) (pivotedData (transformToPivotedData s)))"
proof -
  let ?f = "currentFilter s"
  let ?rows = "pivotRows (products s) ?f (salesPlanDetails s)"
  let ?cand = "filteredProducts (products s) ?f"
  have rows: "pivotedData (transformToPivotedData s) = ?rows"
    by (simp add: transformToPivotedData_def)
  have cols: "map (\<lambda>r. (row_product_id r, row_kategori r, row_kode_barang r)) ?rows
              = map (\<lambda>p. (p_id p, p_kategori p, p_kode_barang p)) ?cand"
    by (rule pivotRows_columns [OF assms(1)])
  have dk: "distinct (map mc_key (monthColumns ?f))"
    by (rule monthColumns_distinct_keys [OF assms(2) assms(4)])
  have keys: "map fst (initMonths (monthColumns ?f)) = map mc_key (monthColumns ?f)"
    by (simp add: initMonths_distinct_keys [OF dk] comp_def)
  have months: "map fst (row_months row) = map mc_key (monthColumns ?f)
      \<and> distinct (map fst (row_months row))
      \<and> length (row_months row) = nat (f_endMonth ?f - f_startMonth ?f + 1)"
    if "row \<in> set ?rows" for row
  proof -
    from pivotRows_month_keys [OF that] keys
    have k: "map fst (row_months row) = map mc_key (monthColumns ?f)" by simp
    have "length (row_months row) = length (map fst (row_months row))" by simp
    also have "\<dots> = length (monthColumns ?f)" by (simp only: k length_map)
    finally have "length (row_months row) = nat (f_endMonth ?f - f_startMonth ?f + 1)"
      by (simp add: monthColumns_length [OF assms(3)])
    with k dk show ?thesis by simp
  qed
  have sorted: "sorted_wrt (rowOrder le) ?rows" if ord: "sorted_wrt (productOrder le) (products s)"
  proof -
    have "sorted_wrt (productOrder le) ?cand"
      unfolding filteredProducts_filter by (rule sorted_wrt_filter [OF ord])
    then have "sorted_wrt (categoryThenCode le) (map (\<lambda>p. (p_kategori p, p_kode_barang p)) ?cand)"
      by (simp add: sorted_wrt_map productOrder_def)
    moreover have "map (\<lambda>p. (p_kategori p, p_kode_barang p)) ?cand
                   = map (\<lambda>r. (row_kategori r, row_kode_barang r)) ?rows"
    proof -
      have "map snd (map (\<lambda>p. (p_id p, p_kategori p, p_kode_barang p)) ?cand)
            = map snd (map (\<lambda>r. (row_product_id r, row_kategori r, row_kode_barang r)) ?rows)"
        by (simp only: cols)
      then show ?thesis by (simp add: comp_def)
    qed
    ultimately show ?thesis by (simp add: sorted_wrt_map rowOrder_def)
  qed
  from cols months sorted pivotRows_ids_distinct [of "products s" ?f "salesPlanDetails s"]
  show ?thesis
    unfolding rows filteredProducts_filter by blast
qed

lemma exCatalog_monthColumns:
  "map mc_key (monthColumns (currentFilter exCatalog)) = [''2026-01'', ''2026-02'', ''2026-03'']"
  by (simp add: monthColumns_def exCatalog_def exFilter_def monthColumn_def toString_def
        nat_toString.simps digit_char_def padStart_def upto_rec1 Let_def)

lemma exCatalog_pk: "distinct (map p_id (products exCatalog))"
  by (simp add: exCatalog_def exProduct_def exProduct2_def exProduct3_def)

lemma exCatalog_ord: "sorted_wrt (productOrder (\<le>)) (products exCatalog)"
  by (simp add: exCatalog_def exProduct_def exProduct2_def exProduct3_def productOrder_def
        categoryThenCode_def)

lemma exCatalog_range:
  "1 \<le> f_startMonth (currentFilter exCatalog)"
  "f_startMonth (currentFilter exCatalog) \<le> f_endMonth (currentFilter exCatalog)"
  "f_endMonth (currentFilter exCatalog) \<le> 12"
  by (simp_all add: exCatalog_def exFilter_def)

lemma exCatalog_filtered:
  "map (\<lambda>p. (p_id p, p_kategori p, p_kode_barang p))
     (filter (\<lambda>p. case f_kategori (currentFilter exCatalog) of
                      None \<Rightarrow> True | Some k \<Rightarrow> p_kategori p = k) (products exCatalog))
   = [(''P1'', AMB, ''YUAMF.001''), (''P2'', AMB, ''YUAMF.002'')]"
  by (simp add: exCatalog_def exProduct_def exProduct2_def exProduct3_def)

theorem transformToPivotedData_complete_sorted_witness:
  "map (\<lambda>r. (row_product_id r, row_kategori r, row_kode_barang r))
       (pivotedData (transformToPivotedData exCatalog))
     = [(''P1'', AMB, ''YUAMF.001''), (''P2'', AMB, ''YUAMF.002'')]
   \<and> map (\<lambda>row. map fst (row_months row)) (pivotedData (transformToPivotedData exCatalog))
     = [[''2026-01'', ''2026-02'', ''2026-03''], [''2026-01'', ''2026-02'', ''2026-03'']]
   \<and> sorted_wrt (productOrder (\<le>)) (products exCatalog)
   \<and> sorted_wrt (rowOrder (\<le>)) (pivotedData (transformToPivotedData exCatalog))"
proof -
  let ?rows = "pivotedData (transformToPivotedData exCatalog)"
  note t = transformToPivotedData_complete_sorted [OF exCatalog_pk exCatalog_range, of "(\<le>)"]
  note t1 = t [THEN conjunct1]
  note t3 = t [THEN conjunct2, THEN conjunct2, THEN conjunct1, rule_format, THEN conjunct1]
  note t4 = t [THEN conjunct2, THEN conjunct2, THEN conjunct2, rule_format, OF exCatalog_ord]
  have a: "map (\<lambda>r. (row_product_id r, row_kategori r, row_kode_barang r)) ?rows
                  = [(''P1'', AMB, ''YUAMF.001''), (''P2'', AMB, ''YUAMF.002'')]"
    using t1 by (simp only: exCatalog_filtered)
  have "length (map (\<lambda>r. (row_product_id r, row_kategori r, row_kode_barang r)) ?rows) = 2"
    by (simp only: a) simp
  then have len: "length ?rows = 2" by (simp only: length_map)
  have "map (\<lambda>row. map fst (row_months row)) ?rows
             = map (\<lambda>row. [''2026-01'', ''2026-02'', ''2026-03'']) ?rows"
  proof (rule map_cong [OF refl])
    fix row assume "row \<in> set ?rows"
    from t3 [OF this] show "map fst (row_months row) = [''2026-01'', ''2026-02'', ''2026-03'']"
      by (simp only: exCatalog_monthColumns)
  qed
  also have "\<dots> = replicate (length ?rows) [''2026-01'', ''2026-02'', ''2026-03'']"
    by (rule map_replicate_const)
  also have "\<dots> = [[''2026-01'', ''2026-02'', ''2026-03''], [''2026-01'', ''2026-02'', ''2026-03'']]"
    by (simp only: len numeral_2_eq_2 replicate.simps)
  finally have b: "map (\<lambda>row. map fst (row_months row)) ?rows
      = [[''2026-01'', ''2026-02'', ''2026-03''], [''2026-01'', ''2026-02'', ''2026-03'']]" .
  from a b exCatalog_ord t4 show ?thesis by (intro conjI)
qed

text \<open>
  Claim C2 as stated fails for a product list that is not ordered: the transform keeps the
  order of the list, here a product of category AMB, one of MCB and again one of AMB, and
  the rows are not ordered by category.
\<close>

theorem transformToPivotedData_unsorted_counterexample:
  "map row_product_id (pivotedData (transformToPivotedData exUnsorted)) = [''P1'', ''P3'', ''P2'']
   \<and> map row_kategori (pivotedData (transformToPivotedData exUnsorted)) = [AMB, MCB, AMB]
   \<and> \<not> sorted_wrt (rowOrder (\<le>)) (pivotedData (transformToPivotedData exUnsorted))"
proof -
  let ?rows = "pivotedData (transformToPivotedData exUnsorted)"
  have "distinct (map p_id (products exUnsorted))"
    by (simp add: exUnsorted_def exProduct_def exProduct2_def exProduct3_def)
  then have "map (\<lambda>r. (row_product_id r, row_kategori r, row_kode_barang r))
               (pivotRows (products exUnsorted) (currentFilter exUnsorted) (salesPlanDetails exUnsorted))
             = map (\<lambda>p. (p_id p, p_kategori p, p_kode_barang p))
                 (filteredProducts (products exUnsorted) (currentFilter exUnsorted))"
    by (rule pivotRows_columns)
  then have cols: "map (\<lambda>r. (row_product_id r, row_kategori r, row_kode_barang r)) ?rows
      = [(''P1'', AMB, ''YUAMF.001''), (''P3'', MCB, ''YUMCB.001''), (''P2'', AMB, ''YUAMF.002'')]"
    by (simp add: transformToPivotedData_def filteredProducts_def exUnsorted_def exFilter_def
          exProduct_def exProduct2_def exProduct3_def)
  have "map row_product_id ?rows
        = map fst (map (\<lambda>r. (row_product_id r, row_kategori r, row_kode_barang r)) ?rows)"
    by (simp add: comp_def)
  then have a: "map row_product_id ?rows = [''P1'', ''P3'', ''P2'']" by (simp only: cols) simp
  have "map row_kategori ?rows
        = map (fst \<circ> snd) (map (\<lambda>r. (row_product_id r, row_kategori r, row_kode_barang r)) ?rows)"
    by (simp add: comp_def)
  then have b: "map row_kategori ?rows = [AMB, MCB, AMB]" by (simp only: cols) simp
  have "sorted_wrt (rowOrder (\<le>)) ?rows
        = sorted_wrt (categoryThenCode (\<le>))
            (map (\<lambda>t. (fst (snd t), snd (snd t)))
               (map (\<lambda>r. (row_product_id r, row_kategori r, row_kode_barang r)) ?rows))"
    by (simp add: sorted_wrt_map rowOrder_def comp_def)
  then have c: "\<not> sorted_wrt (rowOrder (\<le>)) ?rows"
    by (simp only: cols) (simp add: categoryThenCode_def)
  from a b c show ?thesis by (intro conjI)
qed

subsection \<open>Contents of the cells of the pivot\<close>

text \<open>
  Claim C3. Let the fetched plans hold at most one plan for a product and a month key (the
  uniqueness of the natural key, for the one region of the query). Then in the rows that
  \<^verbatim>\<open>transformToPivotedData\<close> stores: for every plan whose product passes the category
  filter and whose month key is one of the month columns, the cell at its product and month
  key holds the identifier, the date, the label and the seven numbers of the plan and is
  not flagged; every cell of a filtered product and a month column for which no plan exists
  has no identifier, the first day of the month as its date, seven zeros and no flag; and the rows are the same as the rows computed
  from the plans of the filtered products alone.
\<close>

theorem transformToPivotedData_cells:
  assumes "distinct (map (\<lambda>r. (sp_product_id r, take 7 (sp_bulan_tahun r))) (salesPlanDetails s))"
    and "rows = pivotedData (transformToPivotedData s)"
    and "cand = filter (\<lambda>p. case f_kategori (currentFilter s) of
                               None \<Rightarrow> True | Some k \<Rightarrow> p_kategori p = k) (products s)"
    and "cols = monthColumns (currentFilter s)"
  shows "(\<forall>r \<in> set (salesPlanDetails s).
            sp_product_id r \<in> p_id ` set cand \<and> take 7 (sp_bulan_tahun r) \<in> mc_key ` set cols \<longrightarrow>
            (\<exists>c. cellAt rows (sp_product_id r) (take 7 (sp_bulan_tahun r)) = Some c
                \<and> md_id c = Some (sp_id r)
                \<and> md_bulan_tahun c = sp_bulan_tahun r
                \<and> md_bulan_label c = sp_bulan_label r
                \<and> md_target_jual c = sp_target_jual r
                \<and> md_estimasi_jual c = sp_estimasi_jual r
                \<and> md_realisasi_sales c = sp_realisasi_sales r
                \<and> md_stok_awal c = sp_stok_awal r
                \<and> md_stok_akhir c = sp_stok_akhir r
                \<and> md_order_qty c = sp_order_qty r
                \<and> md_ito c = sp_ito r
                \<and> \<not> md_isModified c))
       \<and> (\<forall>p \<in> set cand. \<forall>col \<in> set cols.
            (\<forall>r \<in> set (salesPlanDetails s).
               sp_product_id r = p_id p \<longrightarrow> take 7 (sp_bulan_tahun r) \<noteq> mc_key col) \<longrightarrow>
            (\<exists>c. cellAt rows (p_id p) (mc_key col) = Some c
                \<and> md_id c = None
                \<and> md_bulan_tahun c = mc_key col @ ''-01''
                \<and> md_target_jual c = 0
                \<and> md_estimasi_jual c = 0
                \<and> md_realisasi_sales c = 0
                \<and> md_stok_awal c = 0
                \<and> md_stok_akhir c = 0
                \<and> md_order_qty c = 0
                \<and> md_ito c = 0
                \<and> \<not> md_isModified c))
       \<and> rows = pivotRows (products s) (currentFilter s)
                  (filter (\<lambda>r. sp_product_id r \<in> p_id ` set cand) (salesPlanDetails s))"
proof -
  let ?f = "currentFilter s"
  let ?plans = "salesPlanDetails s"
  have rows: "rows = pivotRows (products s) ?f ?plans"
    by (simp add: assms(2) transformToPivotedData_def)
  have cand: "cand = filteredProducts (products s) ?f"
    by (simp add: assms(3) filteredProducts_filter)
  have a: "\<exists>c. cellAt rows (sp_product_id r) (take 7 (sp_bulan_tahun r)) = Some c
                \<and> md_id c = Some (sp_id r)
                \<and> md_bulan_tahun c = sp_bulan_tahun r
                \<and> md_bulan_label c = sp_bulan_label r
                \<and> md_target_jual c = sp_target_jual r
                \<and> md_estimasi_jual c = sp_estimasi_jual r
                \<and> md_realisasi_sales c = sp_realisasi_sales r
                \<and> md_stok_awal c = sp_stok_awal r
                \<and> md_stok_akhir c = sp_stok_akhir r
                \<and> md_order_qty c = sp_order_qty r
                \<and> md_ito c = sp_ito r
                \<and> \<not> md_isModified c"
    if r: "r \<in> set ?plans" and p: "sp_product_id r \<in> p_id ` set cand"
      and k: "take 7 (sp_bulan_tahun r) \<in> mc_key ` set cols" for r
  proof -
    let ?g = "\<lambda>r. (sp_product_id r, take 7 (sp_bulan_tahun r))"
    from assms(1) have "distinct (map ?g (rev ?plans))" by (simp add: rev_map [symmetric])
    moreover from r have "r \<in> set (rev ?plans)" by simp
    ultimately have "find (\<lambda>y. ?g y = ?g r) (rev ?plans) = Some r"
      by (rule find_distinct_key)
    then have fnd: "find (\<lambda>pl. sp_product_id pl = sp_product_id r
                       \<and> take 7 (sp_bulan_tahun pl) = take 7 (sp_bulan_tahun r)) (rev ?plans) = Some r"
      by simp
    from k obtain col where "col \<in> set cols" "mc_key col = take 7 (sp_bulan_tahun r)" by auto
    with map_of_initMonths [of col cols] obtain c0 where
      "map_of (initMonths (monthColumns ?f)) (take 7 (sp_bulan_tahun r)) = Some c0"
      by (auto simp: assms(4))
    with p fnd have "cellAt rows (sp_product_id r) (take 7 (sp_bulan_tahun r))
                     = Some (monthDataOfPlan r)"
      by (simp add: rows cand pivotRows_cell)
    then show ?thesis by (simp add: monthDataOfPlan_def)
  qed
  have b: "\<exists>c. cellAt rows (p_id p) (mc_key col) = Some c
                \<and> md_id c = None
                \<and> md_bulan_tahun c = mc_key col @ ''-01''
                \<and> md_target_jual c = 0
                \<and> md_estimasi_jual c = 0
                \<and> md_realisasi_sales c = 0
                \<and> md_stok_awal c = 0
                \<and> md_stok_akhir c = 0
                \<and> md_order_qty c = 0
                \<and> md_ito c = 0
                \<and> \<not> md_isModified c"
    if p: "p \<in> set cand" and col: "col \<in> set cols"
      and none: "\<forall>r \<in> set ?plans. sp_product_id r = p_id p \<longrightarrow> take 7 (sp_bulan_tahun r) \<noteq> mc_key col"
    for p col
  proof -
    from none have "find (\<lambda>pl. sp_product_id pl = p_id p
                       \<and> take 7 (sp_bulan_tahun pl) = mc_key col) (rev ?plans) = None"
      by (auto simp: find_None_iff)
    moreover from map_of_initMonths [OF col] obtain col' where
      col': "col' \<in> set cols" and key: "mc_key col' = mc_key col" and
      "map_of (initMonths cols) (mc_key col)
       = Some (createEmptyMonthData (mc_date col') (mc_label col'))" by blast
    ultimately have "cellAt rows (p_id p) (mc_key col)
                     = Some (createEmptyMonthData (mc_date col') (mc_label col'))"
      using p by (simp add: rows cand [symmetric] pivotRows_cell assms(4) [symmetric])
    moreover from col' have "mc_date col' = mc_key col @ ''-01''"
      by (simp add: assms(4) monthColumns_date key [symmetric])
    ultimately show ?thesis by (simp add: createEmptyMonthData_def)
  qed
  have c: "rows = pivotRows (products s) ?f
                    (filter (\<lambda>r. sp_product_id r \<in> p_id ` set cand) ?plans)"
    unfolding rows cand by (rule pivotRows_drops_foreign)
  from a b c show ?thesis by blast
qed

theorem transformToPivotedData_cells_witness:
  "cellAt (pivotedData (transformToPivotedData exCatalog)) ''P1'' ''2026-01''
     = Some (monthDataOfPlan exPlan)
   \<and> (\<exists>c. cellAt (pivotedData (transformToPivotedData exCatalog)) ''P2'' ''2026-01'' = Some c
          \<and> md_id c = None \<and> md_bulan_tahun c = ''2026-01-01''
          \<and> md_stok_awal c = 0 \<and> md_stok_akhir c = 0 \<and> \<not> md_isModified c)
   \<and> pivotedData (transformToPivotedData exCatalog)
       = pivotRows (products exCatalog) (currentFilter exCatalog) [exPlan]"
proof -
  let ?rows = "pivotedData (transformToPivotedData exCatalog)"
  let ?cand = "[exProduct, exProduct2]"
  let ?cols = "monthColumns (currentFilter exCatalog)"
  have u: "distinct (map (\<lambda>r. (sp_product_id r, take 7 (sp_bulan_tahun r)))
                      (salesPlanDetails exCatalog))"
    by (simp add: exCatalog_def exPlan_def exPlanMCB_def)
  have cand: "?cand = filter (\<lambda>p. case f_kategori (currentFilter exCatalog) of
                               None \<Rightarrow> True | Some k \<Rightarrow> p_kategori p = k) (products exCatalog)"
    by (simp add: exCatalog_def exProduct_def exProduct2_def exProduct3_def)
  note t = transformToPivotedData_cells [OF u refl cand refl]
  note t1 = t [THEN conjunct1, rule_format]
  note t2 = t [THEN conjunct2, THEN conjunct1, rule_format]
  note t3 = t [THEN conjunct2, THEN conjunct2]
  have plans: "salesPlanDetails exCatalog = [exPlan, exPlanMCB]" by (simp add: exCatalog_def)
  have "set (map mc_key ?cols) = {''2026-01'', ''2026-02'', ''2026-03''}"
    by (simp only: exCatalog_monthColumns) simp
  then have keys: "mc_key ` set ?cols = {''2026-01'', ''2026-02'', ''2026-03''}" by simp
  then have "''2026-01'' \<in> mc_key ` set ?cols" by simp
  then obtain col where col: "col \<in> set ?cols" "mc_key col = ''2026-01''" by auto
  have a: "cellAt ?rows ''P1'' ''2026-01'' = Some (monthDataOfPlan exPlan)"
  proof -
    have m: "exPlan \<in> set (salesPlanDetails exCatalog)" by (simp add: plans)
    have "sp_product_id exPlan \<in> p_id ` set ?cand
          \<and> take 7 (sp_bulan_tahun exPlan) \<in> mc_key ` set ?cols"
      unfolding keys by (simp add: exPlan_def exProduct_def)
    from t1 [OF m this] show ?thesis
      by (auto simp: monthDataOfPlan_def exPlan_def)
  qed
  have b: "\<exists>c. cellAt ?rows ''P2'' ''2026-01'' = Some c
          \<and> md_id c = None \<and> md_bulan_tahun c = ''2026-01-01''
          \<and> md_stok_awal c = 0 \<and> md_stok_akhir c = 0 \<and> \<not> md_isModified c"
  proof -
    have m: "exProduct2 \<in> set ?cand" by simp
    have "take 7 (sp_bulan_tahun r) \<noteq> mc_key col"
      if "r \<in> set (salesPlanDetails exCatalog)" and "sp_product_id r = p_id exProduct2" for r
      using that by (auto simp: plans exPlan_def exPlanMCB_def exProduct2_def)
    from t2 [OF m col(1) this] show ?thesis
      by (auto simp: col(2) exProduct2_def)
  qed
  have c: "?rows = pivotRows (products exCatalog) (currentFilter exCatalog) [exPlan]"
  proof -
    have "filter (\<lambda>r. sp_product_id r \<in> p_id ` set ?cand) (salesPlanDetails exCatalog) = [exPlan]"
      by (simp add: plans exPlan_def exPlanMCB_def exProduct_def exProduct2_def)
    with t3 show ?thesis by simp
  qed
  from a b c show ?thesis by blast
qed

section \<open>The edit tracker\<close>

subsection \<open>Keys of the edit tracker\<close>










subsection \<open>The tracker after a sequence of edits\<close>








section \<open>Saving\<close>

subsection \<open>The edited session, evaluated\<close>

lemma exState_fields:
  "products exState = [exProduct]" "salesPlanDetails exState = [exPlan]"
  "currentFilter exState = exFilter" "modifiedCells exState = []" "inherited exState = []"
  by (simp_all add: exState_def transformToPivotedData_def)

lemma exEdited_fields:
  "products exEdited = [exProduct]" "salesPlanDetails exEdited = [exPlan]"
  "currentFilter exEdited = exFilter"
  by (simp_all add: exEdited_def updateCell_inputs exState_fields)

lemma exEdited_cells: "modifiedCells exEdited = [(''P1_2026-02'', Snapshot exFebEdited)]"
  by (simp add: exEdited_def updateCell_def exState_rows exState_fields Let_def cellKey_def
        editMonthData_def createEmptyMonthData_def exFebEdited_def)


lemma exEdited_feb: "cellAt (pivotedData exEdited) ''P1'' ''2026-02'' = Some exFebEdited"
  unfolding exEdited_def cellAt_updateCell_same [OF exState_feb]
  by (simp add: editMonthData_def createEmptyMonthData_def exFebEdited_def)


lemma exEdited_unsaved: "hasUnsavedChanges exEdited"
  by (simp add: hasUnsavedChanges_def exEdited_cells)



subsection \<open>The batch that saveChanges sends\<close>

lemma fetchSalesPlans_keeps:
  "modifiedCells (fetchSalesPlans select s) = modifiedCells s"
  "currentFilter (fetchSalesPlans select s) = currentFilter s"
  "products (fetchSalesPlans select s) = products s"
  "inherited (fetchSalesPlans select s) = inherited s"
  by (auto simp: fetchSalesPlans_def transformToPivotedData_def Let_def
           split: option.splits sum.splits)

lemma setFilter_keeps:
  "modifiedCells (setFilter select filt s) = modifiedCells s"
  "currentFilter (setFilter select filt s) = mergeFilter (currentFilter s) filt"
  "inherited (setFilter select filt s) = inherited s"
  by (auto simp: setFilter_def Let_def fetchSalesPlans_keeps)

lemma saveChanges_commit:
  assumes "hasUnsavedChanges s"
  shows "saveChanges upsert select s
         = (case upsert (buildUpsertData (currentFilter s) (inherited s) (modifiedCells s)) of
              Some err \<Rightarrow>
                s\<lparr>isSaving := False, error := Some (err_message err ''Failed to save changes'')\<rparr>
            | None \<Rightarrow>
                (fetchSalesPlans select (s\<lparr>isSaving := True, error := None, modifiedCells := []\<rparr>))
                  \<lparr>isSaving := False\<rparr>)"
  using assms by (simp add: saveChanges_def Let_def split: option.splits)



lemma buildUpsertData_items:
  assumes "f_region_id f = Some region" and "region \<noteq> []"
  shows "list_all2 (\<lambda>entry item. itemRegion item = region
                      \<and> itemProduct item = takeWhile (\<lambda>c. c \<noteq> CHR ''_'') (fst entry))
           (filter (\<lambda>entry. takeWhile (\<lambda>c. c \<noteq> CHR ''_'') (fst entry) \<noteq> []) cells)
           (buildUpsertData f objs cells)"
  using assms
  by (induction cells) (auto simp: upsertRecordOf_def Let_def split: TrackedCell.splits)

lemma buildUpsertData_region:
  "item \<in> set (buildUpsertData f objs cells) \<Longrightarrow> f_region_id f = Some (itemRegion item)"
  by (induction cells)
     (auto simp: upsertRecordOf_def Let_def split: option.splits if_splits TrackedCell.splits)


subsection \<open>Outcomes of saveChanges\<close>

lemma saveChanges_upsert_failed:
  assumes "hasUnsavedChanges s"
    and "upsert (buildUpsertData (currentFilter s) (inherited s) (modifiedCells s)) = Some err"
  shows "saveChanges upsert select s
         = s\<lparr>isSaving := False, error := Some (err_message err ''Failed to save changes'')\<rparr>"
  using assms by (simp add: saveChanges_def Let_def)

lemma saveChanges_upsert_ok:
  assumes "hasUnsavedChanges s"
    and "upsert (buildUpsertData (currentFilter s) (inherited s) (modifiedCells s)) = None"
  shows "saveChanges upsert select s
         = (fetchSalesPlans select (s\<lparr>isSaving := True, error := None, modifiedCells := []\<rparr>))
             \<lparr>isSaving := False\<rparr>"
  using assms by (simp add: saveChanges_def Let_def)

lemma saveChanges_ignores_flags:
  "hasUnsavedChanges s \<Longrightarrow>
   saveChanges upsert select (s\<lparr>isSaving := b, error := e\<rparr>) = saveChanges upsert select s"
  by (simp add: saveChanges_def hasUnsavedChanges_def Let_def)

text \<open>
  Claim C4, as amended. Let \<^verbatim>\<open>saveChanges\<close> run with unsaved changes. If the upsert of the
  records it builds fails, \<^verbatim>\<open>modifiedCells\<close> and \<^verbatim>\<open>pivotedData\<close> are unchanged, the
  message of the error is stored in \<^verbatim>\<open>error\<close>, and a further \<^verbatim>\<open>saveChanges\<close> behaves as
  it would have on the state before the failed one. If the upsert succeeds,
  \<^verbatim>\<open>modifiedCells\<close> is empty afterwards; when a region is selected and the query for the
  plans succeeds, \<^verbatim>\<open>salesPlanDetails\<close> holds the fetched plans and \<^verbatim>\<open>pivotedData\<close> is
  their pivot; when that query fails, \<^verbatim>\<open>pivotedData\<close> and \<^verbatim>\<open>salesPlanDetails\<close> are
  unchanged and the message of the fetch error is stored.
\<close>

theorem saveChanges_outcomes:
  assumes "hasUnsavedChanges s"
  shows "(upsert (buildUpsertData (currentFilter s) (inherited s) (modifiedCells s)) = Some err \<longrightarrow>
            modifiedCells (saveChanges upsert select s) = modifiedCells s
          \<and> pivotedData (saveChanges upsert select s) = pivotedData s
          \<and> error (saveChanges upsert select s) = Some (err_message err ''Failed to save changes'')
          \<and> saveChanges upsert2 select2 (saveChanges upsert select s)
              = saveChanges upsert2 select2 s)
       \<and> (upsert (buildUpsertData (currentFilter s) (inherited s) (modifiedCells s)) = None \<longrightarrow>
            modifiedCells (saveChanges upsert select s) = []
          \<and> (f_region_id (currentFilter s) = Some region \<and> region \<noteq> []
               \<and> planQuery select (currentFilter s) region = Inr data \<longrightarrow>
                 salesPlanDetails (saveChanges upsert select s) = data
               \<and> pivotedData (saveChanges upsert select s)
                   = pivotRows (products s) (currentFilter s) data)
          \<and> (f_region_id (currentFilter s) = Some region \<and> region \<noteq> []
               \<and> planQuery select (currentFilter s) region = Inl thrown \<longrightarrow>
                 pivotedData (saveChanges upsert select s) = pivotedData s
               \<and> salesPlanDetails (saveChanges upsert select s) = salesPlanDetails s
               \<and> error (saveChanges upsert select s)
                   = Some (err_message thrown ''Failed to fetch sales plans'')))"
proof (intro conjI impI)
  assume f: "upsert (buildUpsertData (currentFilter s) (inherited s) (modifiedCells s)) = Some err"
  note eq = saveChanges_upsert_failed [of s upsert err, OF assms f]
  show "modifiedCells (saveChanges upsert select s) = modifiedCells s" by (simp add: eq)
  show "pivotedData (saveChanges upsert select s) = pivotedData s" by (simp add: eq)
  show "error (saveChanges upsert select s) = Some (err_message err ''Failed to save changes'')"
    by (simp add: eq)
  show "saveChanges upsert2 select2 (saveChanges upsert select s) = saveChanges upsert2 select2 s"
    unfolding eq by (rule saveChanges_ignores_flags [OF assms])
next
  assume ok: "upsert (buildUpsertData (currentFilter s) (inherited s) (modifiedCells s)) = None"
  note eq = saveChanges_upsert_ok [of s upsert, OF assms ok]
  show "modifiedCells (saveChanges upsert select s) = []"
    by (simp add: eq fetchSalesPlans_keeps)
  {
    assume "f_region_id (currentFilter s) = Some region \<and> region \<noteq> []
               \<and> planQuery select (currentFilter s) region = Inr data"
    then show "salesPlanDetails (saveChanges upsert select s) = data"
      and "pivotedData (saveChanges upsert select s) = pivotRows (products s) (currentFilter s) data"
      by (simp_all add: eq fetchSalesPlans_def transformToPivotedData_def Let_def)
  }
  {
    assume "f_region_id (currentFilter s) = Some region \<and> region \<noteq> []
               \<and> planQuery select (currentFilter s) region = Inl thrown"
    then show "pivotedData (saveChanges upsert select s) = pivotedData s"
      and "salesPlanDetails (saveChanges upsert select s) = salesPlanDetails s"
      and "error (saveChanges upsert select s)
                   = Some (err_message thrown ''Failed to fetch sales plans'')"
      by (simp_all add: eq fetchSalesPlans_def Let_def)
  }
qed

lemma exEdited_query_offline:
  "planQuery exSelectOffline (currentFilter exEdited) ''R1'' = Inl (Error ''offline'')"
  by (simp add: planQuery_def exSelectOffline_def Let_def)

lemma exStale_eq:
  "exStale = exEdited\<lparr>isSaving := False, error := Some ''offline'', isLoading := False,
                        modifiedCells := []\<rparr>"
proof -
  have ok: "exUpsertOk (buildUpsertData (currentFilter exEdited) (inherited exEdited) (modifiedCells exEdited)) = None"
    by (simp add: exUpsertOk_def)
  show ?thesis
    unfolding exStale_def saveChanges_upsert_ok [of exEdited exUpsertOk, OF exEdited_unsaved ok]
    by (simp add: fetchSalesPlans_def exEdited_fields exFilter_def planQuery_def
          exSelectOffline_def Let_def)
qed

text \<open>
  Claim C4 as stated fails when the upsert succeeds and the query that follows it fails:
  \<^verbatim>\<open>modifiedCells\<close> is cleared, but \<^verbatim>\<open>pivotedData\<close> still holds the edited, flagged
  cell, \<^verbatim>\<open>salesPlanDetails\<close> still holds the plans fetched earlier, and the rows are not
  the pivot of these plans.
\<close>

theorem saveChanges_refetch_failed_counterexample:
  "exUpsertOk (buildUpsertData (currentFilter exEdited) (inherited exEdited) (modifiedCells exEdited)) = None
   \<and> modifiedCells (saveChanges exUpsertOk exSelectOffline exEdited) = []
   \<and> pivotedData (saveChanges exUpsertOk exSelectOffline exEdited) = pivotedData exEdited
   \<and> cellAt (pivotedData (saveChanges exUpsertOk exSelectOffline exEdited)) ''P1'' ''2026-02''
       = Some exFebEdited
   \<and> md_isModified exFebEdited
   \<and> salesPlanDetails (saveChanges exUpsertOk exSelectOffline exEdited) = [exPlan]
   \<and> pivotedData (saveChanges exUpsertOk exSelectOffline exEdited)
       \<noteq> pivotRows (products exEdited) (currentFilter exEdited)
            (salesPlanDetails (saveChanges exUpsertOk exSelectOffline exEdited))"
proof -
  let ?s' = "saveChanges exUpsertOk exSelectOffline exEdited"
  have ok: "exUpsertOk (buildUpsertData (currentFilter exEdited) (inherited exEdited) (modifiedCells exEdited)) = None"
    by (simp add: exUpsertOk_def)
  have eq: "?s' = exEdited\<lparr>isSaving := False, error := Some ''offline'', isLoading := False,
                            modifiedCells := []\<rparr>"
    using exStale_eq by (simp add: exStale_def)
  have piv: "pivotedData ?s' = pivotedData exEdited" by (simp add: eq)
  have cell: "cellAt (pivotedData ?s') ''P1'' ''2026-02'' = Some exFebEdited"
    by (simp add: piv exEdited_feb)
  have m: "md_isModified exFebEdited" by (simp add: exFebEdited_def)
  have "pivotedData ?s' \<noteq> pivotRows ps f plans" for ps f plans
  proof
    assume "pivotedData ?s' = pivotRows ps f plans"
    with cell have "cellAt (pivotRows ps f plans) ''P1'' ''2026-02'' = Some exFebEdited" by simp
    from pivotRows_not_modified [OF this] m show False by simp
  qed
  then show ?thesis using ok cell m piv by (simp add: eq exEdited_fields)
qed

theorem saveChanges_outcomes_witness:
  "modifiedCells (saveChanges exUpsertRejected exSelectEmpty exEdited) = modifiedCells exEdited
   \<and> pivotedData (saveChanges exUpsertRejected exSelectEmpty exEdited) = pivotedData exEdited
   \<and> error (saveChanges exUpsertRejected exSelectEmpty exEdited) = Some ''rejected''
   \<and> saveChanges exUpsertOk exSelectEmpty (saveChanges exUpsertRejected exSelectEmpty exEdited)
       = saveChanges exUpsertOk exSelectEmpty exEdited
   \<and> modifiedCells (saveChanges exUpsertOk exSelectEmpty exEdited) = []
   \<and> salesPlanDetails (saveChanges exUpsertOk exSelectEmpty exEdited) = []
   \<and> pivotedData (saveChanges exUpsertOk exSelectEmpty exEdited)
       = pivotRows [exProduct] exFilter []
   \<and> pivotedData (saveChanges exUpsertOk exSelectOffline exEdited) = pivotedData exEdited
   \<and> salesPlanDetails (saveChanges exUpsertOk exSelectOffline exEdited) = [exPlan]
   \<and> error (saveChanges exUpsertOk exSelectOffline exEdited) = Some ''offline''"
proof -
  have rej: "exUpsertRejected (buildUpsertData (currentFilter exEdited) (inherited exEdited) (modifiedCells exEdited))
             = Some (Error ''rejected'')"
    by (simp add: exUpsertRejected_def)
  have ok: "exUpsertOk (buildUpsertData (currentFilter exEdited) (inherited exEdited) (modifiedCells exEdited)) = None"
    by (simp add: exUpsertOk_def)
  have reg: "f_region_id (currentFilter exEdited) = Some ''R1'' \<and> ''R1'' \<noteq> []"
    by (simp add: exEdited_fields exFilter_def)
  have q1: "planQuery exSelectEmpty (currentFilter exEdited) ''R1'' = Inr []"
    by (simp add: planQuery_def exSelectEmpty_def Let_def)
  note t1 = saveChanges_outcomes [OF exEdited_unsaved, of exUpsertRejected "Error ''rejected''"
              exSelectEmpty exUpsertOk exSelectEmpty "''R1''" "[]" Thrown_other,
              THEN conjunct1, rule_format, OF rej]
  note t2 = saveChanges_outcomes [OF exEdited_unsaved, of exUpsertOk Thrown_other
              exSelectEmpty exUpsertOk exSelectEmpty "''R1''" "[]" Thrown_other,
              THEN conjunct2, rule_format, OF ok]
  note t3 = saveChanges_outcomes [OF exEdited_unsaved, of exUpsertOk Thrown_other
              exSelectOffline exUpsertOk exSelectEmpty "''R1''" "[]" "Error ''offline''",
              THEN conjunct2, rule_format, OF ok]
  from t1 have a: "modifiedCells (saveChanges exUpsertRejected exSelectEmpty exEdited)
                     = modifiedCells exEdited
      \<and> pivotedData (saveChanges exUpsertRejected exSelectEmpty exEdited) = pivotedData exEdited
      \<and> error (saveChanges exUpsertRejected exSelectEmpty exEdited) = Some ''rejected''
      \<and> saveChanges exUpsertOk exSelectEmpty (saveChanges exUpsertRejected exSelectEmpty exEdited)
          = saveChanges exUpsertOk exSelectEmpty exEdited"
    by simp
  from t2 reg q1 have b: "modifiedCells (saveChanges exUpsertOk exSelectEmpty exEdited) = []
      \<and> salesPlanDetails (saveChanges exUpsertOk exSelectEmpty exEdited) = []
      \<and> pivotedData (saveChanges exUpsertOk exSelectEmpty exEdited)
          = pivotRows [exProduct] exFilter []"
    by (simp add: exEdited_fields)
  from t3 reg exEdited_query_offline
  have c: "pivotedData (saveChanges exUpsertOk exSelectOffline exEdited) = pivotedData exEdited
      \<and> salesPlanDetails (saveChanges exUpsertOk exSelectOffline exEdited) = [exPlan]
      \<and> error (saveChanges exUpsertOk exSelectOffline exEdited) = Some ''offline''"
    by (simp add: exEdited_fields)
  from a b c show ?thesis by simp
qed

subsection \<open>Entries of the tracker and the cells they copy\<close>











subsection \<open>One record for every entry\<close>







subsection \<open>The region of the records\<close>

text \<open>
  Claim C10. Let \<^verbatim>\<open>modifiedCells\<close> hold entries and let \<^verbatim>\<open>setFilter\<close> select the region
  \<open>region'\<close>. \<^verbatim>\<open>setFilter\<close> leaves \<^verbatim>\<open>modifiedCells\<close> as it is, and what a following
  \<^verbatim>\<open>saveChanges\<close> returns is decided, for every database, by the answer of the upsert to
  a batch that has, in the order of the entries, one record for every entry whose key
  starts with a product identifier, each with that product identifier and the region
  \<open>region'\<close>, whatever the region was when the entries were recorded. In any state with
  unsaved changes the records of the batch that \<^verbatim>\<open>saveChanges\<close> sends carry the region of
  the filter of that state.
\<close>

theorem commit_region_is_current_filter:
  assumes "pf_region_id filt = Some (Some region')" and "region' \<noteq> []"
    and "hasUnsavedChanges s"
  shows "modifiedCells (setFilter select filt s) = modifiedCells s
       \<and> (\<exists>batch.
            list_all2 (\<lambda>entry item. itemRegion item = region'
                         \<and> itemProduct item = takeWhile (\<lambda>c. c \<noteq> CHR ''_'') (fst entry))
              (filter (\<lambda>entry. takeWhile (\<lambda>c. c \<noteq> CHR ''_'') (fst entry) \<noteq> []) (modifiedCells s))
              batch
          \<and> (\<forall>upsert select'.
                saveChanges upsert select' (setFilter select filt s)
                  = (case upsert batch of
                       Some err \<Rightarrow>
                         (setFilter select filt s)\<lparr>isSaving := False,
                           error := Some (err_message err ''Failed to save changes'')\<rparr>
                     | None \<Rightarrow>
                         (fetchSalesPlans select'
                            ((setFilter select filt s)\<lparr>isSaving := True, error := None, modifiedCells := []\<rparr>))
                           \<lparr>isSaving := False\<rparr>)))
       \<and> (\<exists>batch.
            (\<forall>item \<in> set batch. f_region_id (currentFilter s) = Some (itemRegion item))
          \<and> (\<forall>upsert select'.
                saveChanges upsert select' s
                  = (case upsert batch of
                       Some err \<Rightarrow>
                         s\<lparr>isSaving := False,
                           error := Some (err_message err ''Failed to save changes'')\<rparr>
                     | None \<Rightarrow>
                         (fetchSalesPlans select'
                            (s\<lparr>isSaving := True, error := None, modifiedCells := []\<rparr>))
                           \<lparr>isSaving := False\<rparr>)))"
proof -
  let ?s' = "setFilter select filt s"
  have cells: "modifiedCells ?s' = modifiedCells s" by (rule setFilter_keeps)
  have reg: "f_region_id (currentFilter ?s') = Some region'"
    using assms(1) by (simp add: setFilter_keeps mergeFilter_def)
  from assms(3) have unsaved: "hasUnsavedChanges ?s'"
    by (simp add: hasUnsavedChanges_def cells)
  let ?after = "buildUpsertData (currentFilter ?s') (inherited ?s') (modifiedCells ?s')"
  let ?before = "buildUpsertData (currentFilter s) (inherited s) (modifiedCells s)"
  have a1: "list_all2 (\<lambda>entry item. itemRegion item = region'
                         \<and> itemProduct item = takeWhile (\<lambda>c. c \<noteq> CHR ''_'') (fst entry))
              (filter (\<lambda>entry. takeWhile (\<lambda>c. c \<noteq> CHR ''_'') (fst entry) \<noteq> []) (modifiedCells s))
              ?after"
    unfolding cells by (rule buildUpsertData_items [OF reg assms(2)])
  have a2: "\<forall>upsert select'.
                saveChanges upsert select' ?s'
                  = (case upsert ?after of
                       Some err \<Rightarrow>
                         ?s'\<lparr>isSaving := False,
                           error := Some (err_message err ''Failed to save changes'')\<rparr>
                     | None \<Rightarrow>
                         (fetchSalesPlans select'
                            (?s'\<lparr>isSaving := True, error := None, modifiedCells := []\<rparr>))
                           \<lparr>isSaving := False\<rparr>)"
    by (simp only: saveChanges_commit [OF unsaved]) simp
  have b1: "\<forall>item \<in> set ?before. f_region_id (currentFilter s) = Some (itemRegion item)"
    by (auto dest: buildUpsertData_region)
  have b2: "\<forall>upsert select'.
                saveChanges upsert select' s
                  = (case upsert ?before of
                       Some err \<Rightarrow>
                         s\<lparr>isSaving := False,
                           error := Some (err_message err ''Failed to save changes'')\<rparr>
                     | None \<Rightarrow>
                         (fetchSalesPlans select'
                            (s\<lparr>isSaving := True, error := None, modifiedCells := []\<rparr>))
                           \<lparr>isSaving := False\<rparr>)"
    by (simp only: saveChanges_commit [OF assms(3)]) simp
  from a1 a2 have a: "\<exists>batch.
            list_all2 (\<lambda>entry item. itemRegion item = region'
                         \<and> itemProduct item = takeWhile (\<lambda>c. c \<noteq> CHR ''_'') (fst entry))
              (filter (\<lambda>entry. takeWhile (\<lambda>c. c \<noteq> CHR ''_'') (fst entry) \<noteq> []) (modifiedCells s))
              batch
          \<and> (\<forall>upsert select'.
                saveChanges upsert select' ?s'
                  = (case upsert batch of
                       Some err \<Rightarrow>
                         ?s'\<lparr>isSaving := False,
                           error := Some (err_message err ''Failed to save changes'')\<rparr>
                     | None \<Rightarrow>
                         (fetchSalesPlans select'
                            (?s'\<lparr>isSaving := True, error := None, modifiedCells := []\<rparr>))
                           \<lparr>isSaving := False\<rparr>))"
    by (intro exI [of _ ?after] conjI)
  from b1 b2 have b: "\<exists>batch.
            (\<forall>item \<in> set batch. f_region_id (currentFilter s) = Some (itemRegion item))
          \<and> (\<forall>upsert select'.
                saveChanges upsert select' s
                  = (case upsert batch of
                       Some err \<Rightarrow>
                         s\<lparr>isSaving := False,
                           error := Some (err_message err ''Failed to save changes'')\<rparr>
                     | None \<Rightarrow>
                         (fetchSalesPlans select'
                            (s\<lparr>isSaving := True, error := None, modifiedCells := []\<rparr>))
                           \<lparr>isSaving := False\<rparr>))"
    by (intro exI [of _ ?before] conjI)
  from cells a b show ?thesis by (intro conjI)
qed

lemma exRegionR2_batch:
  "buildUpsertData (currentFilter (setFilter exSelectEmpty exRegionR2 exEdited))
     (inherited (setFilter exSelectEmpty exRegionR2 exEdited))
     (modifiedCells (setFilter exSelectEmpty exRegionR2 exEdited)) = [exFebRecord ''R2'']"
  by (simp add: setFilter_keeps mergeFilter_def exRegionR2_def exEdited_fields exEdited_cells
        exFilter_def upsertRecordOf_def Let_def exFebEdited_def exFebRecord_def)

theorem commit_region_is_current_filter_witness:
  "f_region_id (currentFilter exEdited) = Some ''R1''
   \<and> modifiedCells (setFilter exSelectEmpty exRegionR2 exEdited)
       = [(''P1_2026-02'', Snapshot exFebEdited)]
   \<and> saveChanges exUpsertRejected exSelectEmpty (setFilter exSelectEmpty exRegionR2 exEdited)
       = (setFilter exSelectEmpty exRegionR2 exEdited)
           \<lparr>isSaving := False, error := Some ''rejected''\<rparr>
   \<and> error (saveChanges (exUpsertExpecting [exFebRecord ''R2'']) exSelectEmpty
              (setFilter exSelectEmpty exRegionR2 exEdited)) = None
   \<and> modifiedCells (saveChanges (exUpsertExpecting [exFebRecord ''R2'']) exSelectEmpty
                      (setFilter exSelectEmpty exRegionR2 exEdited)) = []
   \<and> error (saveChanges (exUpsertExpecting [exFebRecord ''R1'']) exSelectEmpty
              (setFilter exSelectEmpty exRegionR2 exEdited)) = Some ''unexpected batch''"
proof -
  let ?s' = "setFilter exSelectEmpty exRegionR2 exEdited"
  have f: "pf_region_id exRegionR2 = Some (Some ''R2'')" by (simp add: exRegionR2_def)
  have ne: "''R2'' \<noteq> []" by simp
  note t = commit_region_is_current_filter [OF f ne exEdited_unsaved, of exSelectEmpty]
  from t [THEN conjunct1] have cells: "modifiedCells ?s' = [(''P1_2026-02'', Snapshot exFebEdited)]"
    by (simp only: exEdited_cells)
  from t [THEN conjunct2, THEN conjunct1] obtain batch where
    r: "\<forall>upsert select'.
          saveChanges upsert select' ?s'
            = (case upsert batch of
                 Some err \<Rightarrow>
                   ?s'\<lparr>isSaving := False,
                     error := Some (err_message err ''Failed to save changes'')\<rparr>
               | None \<Rightarrow>
                   (fetchSalesPlans select'
                      (?s'\<lparr>isSaving := True, error := None, modifiedCells := []\<rparr>))
                     \<lparr>isSaving := False\<rparr>)"
    by (elim exE conjE) (erule that)
  from r [rule_format, of exUpsertRejected exSelectEmpty]
  have a: "saveChanges exUpsertRejected exSelectEmpty ?s'
           = ?s'\<lparr>isSaving := False, error := Some ''rejected''\<rparr>"
    by (simp add: exUpsertRejected_def)
  have r1: "f_region_id (currentFilter exEdited) = Some ''R1''"
    by (simp add: exEdited_fields exFilter_def)
  have reg: "f_region_id (currentFilter ?s') = Some ''R2''"
    by (simp add: setFilter_keeps mergeFilter_def exRegionR2_def)
  have unsaved: "hasUnsavedChanges ?s'" by (simp add: hasUnsavedChanges_def cells)
  have sent: "saveChanges (exUpsertExpecting [exFebRecord ''R2'']) exSelectEmpty ?s'
              = (fetchSalesPlans exSelectEmpty
                   (?s'\<lparr>isSaving := True, error := None, modifiedCells := []\<rparr>))
                  \<lparr>isSaving := False\<rparr>"
    by (simp add: saveChanges_commit [OF unsaved] exRegionR2_batch exUpsertExpecting_def)
  have b: "error (saveChanges (exUpsertExpecting [exFebRecord ''R2'']) exSelectEmpty ?s') = None"
    by (simp add: sent fetchSalesPlans_def reg planQuery_def exSelectEmpty_def
          transformToPivotedData_def Let_def)
  have c: "modifiedCells (saveChanges (exUpsertExpecting [exFebRecord ''R2'']) exSelectEmpty ?s')
           = []"
    by (simp add: sent fetchSalesPlans_keeps)
  have d: "error (saveChanges (exUpsertExpecting [exFebRecord ''R1'']) exSelectEmpty ?s')
           = Some ''unexpected batch''"
    by (simp add: saveChanges_commit [OF unsaved] exRegionR2_batch exUpsertExpecting_def
          exFebRecord_def)
  from r1 cells a b c d show ?thesis by (intro conjI)
qed

section \<open>Discarding\<close>

text \<open>
  Claim C5, as amended. After any sequence of \<^verbatim>\<open>updateCell\<close> calls, \<^verbatim>\<open>discardChanges\<close>
  leaves \<^verbatim>\<open>modifiedCells\<close> empty and makes \<^verbatim>\<open>pivotedData\<close> the pivot of the products,
  the filter and the \<^verbatim>\<open>salesPlanDetails\<close> that the store held before the edits; the
  fetched plans themselves are the same list as before (\<^verbatim>\<open>discardChanges\<close> reads no
  database). When the pivot before the edits was the pivot of these plans, the whole pivot,
  and so every cell, is back at its value from before the edits.
\<close>

theorem discardChanges_restores:
  "modifiedCells (discardChanges (applyEdits es s)) = []
   \<and> \<not> hasUnsavedChanges (discardChanges (applyEdits es s))
   \<and> pivotedData (discardChanges (applyEdits es s))
       = pivotRows (products s) (currentFilter s) (salesPlanDetails s)
   \<and> salesPlanDetails (discardChanges (applyEdits es s)) = salesPlanDetails s
   \<and> (pivotedData s = pivotRows (products s) (currentFilter s) (salesPlanDetails s)
        \<longrightarrow> pivotedData (discardChanges (applyEdits es s)) = pivotedData s)"
  by (simp add: discardChanges_def transformToPivotedData_def hasUnsavedChanges_def
        applyEdits_inputs)

theorem discardChanges_restores_witness:
  "cellAt (pivotedData (applyEdits [(''P1'', ''2026-02'', K_stok_awal, 40)] exState))
      ''P1'' ''2026-02''
     \<noteq> cellAt (pivotedData exState) ''P1'' ''2026-02''
   \<and> pivotedData (discardChanges (applyEdits [(''P1'', ''2026-02'', K_stok_awal, 40)] exState))
       = pivotedData exState
   \<and> modifiedCells (discardChanges (applyEdits [(''P1'', ''2026-02'', K_stok_awal, 40)] exState))
       = []"
proof -
  note r = discardChanges_restores [of "[(''P1'', ''2026-02'', K_stok_awal, 40)]" exState]
  have h: "pivotedData exState
           = pivotRows (products exState) (currentFilter exState) (salesPlanDetails exState)"
    by (simp add: exState_def transformToPivotedData_def)
  from r h have a: "pivotedData (discardChanges
      (applyEdits [(''P1'', ''2026-02'', K_stok_awal, 40)] exState)) = pivotedData exState"
    by blast
  from r have b: "modifiedCells (discardChanges
      (applyEdits [(''P1'', ''2026-02'', K_stok_awal, 40)] exState)) = []"
    by blast
  have c: "cellAt (pivotedData (applyEdits [(''P1'', ''2026-02'', K_stok_awal, 40)] exState))
              ''P1'' ''2026-02'' \<noteq> cellAt (pivotedData exState) ''P1'' ''2026-02''"
    by (simp add: exState_edit_feb exState_feb createEmptyMonthData_def)
  from a b c show ?thesis by blast
qed

text \<open>
  Claim C5 as stated fails when the pivot before the edits is not the pivot of the plans
  last fetched. In the session whose edit was saved while the query for the plans failed,
  nothing is unsaved and the February cell shows the opening stock 40 of the saved edit.
  After a further edit of that cell and \<^verbatim>\<open>discardChanges\<close> the cell is the empty cell
  computed from the plans fetched earlier: its opening stock is 0, not the 40 from before
  the edit.
\<close>

theorem discardChanges_stale_pivot_counterexample:
  "modifiedCells exStale = []
   \<and> cellAt (pivotedData exStale) ''P1'' ''2026-02'' = Some exFebEdited
   \<and> md_stok_awal exFebEdited = 40
   \<and> cellAt (pivotedData (discardChanges
                 (applyEdits [(''P1'', ''2026-02'', K_order_qty, 5)] exStale))) ''P1'' ''2026-02''
       = Some (createEmptyMonthData ''2026-02-01'' ''Feb 2026'')
   \<and> md_stok_awal (createEmptyMonthData ''2026-02-01'' ''Feb 2026'') = 0
   \<and> pivotedData (discardChanges (applyEdits [(''P1'', ''2026-02'', K_order_qty, 5)] exStale))
       \<noteq> pivotedData exStale"
proof -
  let ?d = "discardChanges (applyEdits [(''P1'', ''2026-02'', K_order_qty, 5)] exStale)"
  have a: "modifiedCells exStale = []" by (simp add: exStale_eq)
  have b: "cellAt (pivotedData exStale) ''P1'' ''2026-02'' = Some exFebEdited"
    by (simp add: exStale_eq exEdited_feb)
  have "pivotedData ?d
        = pivotRows (products exStale) (currentFilter exStale) (salesPlanDetails exStale)"
    by (simp add: discardChanges_def transformToPivotedData_def applyEdits_inputs)
  also have "\<dots> = pivotedData exState"
    by (simp add: exStale_eq exEdited_fields exState_def transformToPivotedData_def)
  finally have piv: "pivotedData ?d = pivotedData exState" .
  have c: "cellAt (pivotedData ?d) ''P1'' ''2026-02''
           = Some (createEmptyMonthData ''2026-02-01'' ''Feb 2026'')"
    by (simp add: piv exState_feb)
  have d: "pivotedData ?d \<noteq> pivotedData exStale"
  proof
    assume "pivotedData ?d = pivotedData exStale"
    with b c have "createEmptyMonthData ''2026-02-01'' ''Feb 2026'' = exFebEdited" by simp
    then have "md_stok_awal (createEmptyMonthData ''2026-02-01'' ''Feb 2026'')
               = md_stok_awal exFebEdited" by simp
    then show False by (simp add: createEmptyMonthData_def exFebEdited_def)
  qed
  from a b c d show ?thesis by (simp add: createEmptyMonthData_def exFebEdited_def)
qed

end
